theory Spec2Isabelle
  imports Main "HOL-Library.Signed_Division"
begin

section \<open>Conventions of the embedding\<close>

text \<open>
  The C sources of pgraft are embedded function by function. A fixed-size C array is a
  total function from the C index (an \<open>int\<close>) to the element; the code guards every
  access by the element count kept next to the array. The signed counters
  (\<open>int32_t\<close>, \<open>int64_t\<close>) are mathematical integers: a counter is only ever
  incremented by one, and an overflow (undefined in C) is out of reach of the embedding.
  A C string is the list of its characters in front of the terminating NUL, a nullable
  pointer to one is an \<open>option\<close>. \<open>strncpy (dst, src, sizeof dst - 1)\<close> followed by
  the store of the terminator is \<open>take (sizeof dst - 1) src\<close>.

  A function result is the returned value, or \<open>Elog_error\<close> where the code reports with
  \<open>elog (ERROR, ...)\<close>: in PostgreSQL that call does not return, it unwinds to the
  enclosing error handler. \<open>Null_pointer_read\<close> is the result where the code hands a
  null string to \<open>strcmp\<close> or \<open>pstrdup\<close>. Messages at lower levels (LOG, INFO,
  WARNING, DEBUG) have no effect on the state and are left out. Clock reads
  (\<open>GetCurrentTimestamp\<close>, \<open>time\<close>) are an argument \<open>now\<close> of the function
  that reads the clock.
\<close>

datatype 'a outcome = Return 'a | Elog_error | Null_pointer_read

section \<open>Log replication tracker (pgraft\_log.c)\<close>

text \<open>
  \<open>pgraft_log_entry_t\<close> and \<open>pgraft_log_state_t\<close>, with the fields the code of
  pgraft\_log.c reads and writes. The payload buffer holds the copied bytes in front of
  the terminator the code stores at \<open>data[data_size]\<close>.
\<close>

record pgraft_log_entry =
  le_index :: int
  le_term :: int
  le_timestamp :: int
  le_data :: string
  le_data_size :: int
  le_committed :: bool
  le_applied :: bool

record pgraft_log_state =
  ls_entries :: "int \<Rightarrow> pgraft_log_entry"
  log_size :: int
  last_index :: int
  commit_index :: int
  last_applied :: int
  entries_replicated :: int
  entries_committed :: int
  entries_applied :: int
  replication_errors :: int

text \<open>The state \<open>pgraft_log_init_shared_memory\<close> creates: zeroed memory, counters 0.\<close>

definition zero_log_entry :: pgraft_log_entry where
  "zero_log_entry = \<lparr>le_index = 0, le_term = 0, le_timestamp = 0, le_data = [],
     le_data_size = 0, le_committed = False, le_applied = False\<rparr>"

definition pgraft_log_init_shared_memory :: pgraft_log_state where
  "pgraft_log_init_shared_memory = \<lparr>ls_entries = (\<lambda>_. zero_log_entry), log_size = 0,
     last_index = 0, commit_index = 0, last_applied = 0, entries_replicated = 0,
     entries_committed = 0, entries_applied = 0, replication_errors = 0\<rparr>"

text \<open>
  \<open>pgraft_log_append_entry (term, data, data_size)\<close>. Both rejections are
  \<open>elog (ERROR, ...)\<close>; the shared state is untouched on either.
\<close>

definition pgraft_log_append_entry ::
  "int \<Rightarrow> int \<Rightarrow> string option \<Rightarrow> int \<Rightarrow> pgraft_log_state \<Rightarrow> int outcome \<times> pgraft_log_state" where
  "pgraft_log_append_entry now trm dat data_size s =
     (if data_size > 1024 then (Elog_error, s)
      else if log_size s \<ge> 1000 then (Elog_error, s)
      else
        let entry = (ls_entries s (log_size s))
              \<lparr>le_index := last_index s + 1,
               le_term := trm,
               le_timestamp := now,
               le_data_size := data_size,
               le_committed := False,
               le_applied := False\<rparr>;
            entry = (if dat \<noteq> None \<and> data_size > 0
                     then entry\<lparr>le_data := take (nat data_size) (the dat)\<rparr>
                     else entry\<lparr>le_data := take (nat data_size) (le_data entry)\<rparr>)
        in (Return 0,
            s\<lparr>ls_entries := (ls_entries s)(log_size s := entry),
              log_size := log_size s + 1,
              last_index := le_index entry\<rparr>))"

text \<open>
  \<open>pgraft_log_commit_entry (index)\<close>: the scan \<open>for (i = 0; i < log_size; i++)\<close>,
  entered at \<open>i\<close>. It returns 0 from inside the loop at the first slot that carries the
  index, and -1 after the loop.
\<close>

function commit_scan :: "int \<Rightarrow> int \<Rightarrow> pgraft_log_state \<Rightarrow> int \<times> pgraft_log_state" where
  "commit_scan idx i s =
     (if i < log_size s then
        (if le_index (ls_entries s i) = idx then
           (0, s\<lparr>ls_entries := (ls_entries s)(i := (ls_entries s i)\<lparr>le_committed := True\<rparr>),
                commit_index := (if idx > commit_index s then idx else commit_index s),
                entries_committed := entries_committed s + 1\<rparr>)
         else commit_scan idx (i + 1) s)
      else (- 1, s))"
  by pat_completeness auto
termination
  by (relation "measure (\<lambda>(idx, i, s). nat (log_size s - i))") auto

definition pgraft_log_commit_entry :: "int \<Rightarrow> pgraft_log_state \<Rightarrow> int \<times> pgraft_log_state" where
  "pgraft_log_commit_entry idx s = commit_scan idx 0 s"

text \<open>
  \<open>pgraft_log_apply_entry (index)\<close>: the same scan; the first slot that carries the
  index decides, with -1 when it is not committed.
\<close>

function apply_scan :: "int \<Rightarrow> int \<Rightarrow> pgraft_log_state \<Rightarrow> int \<times> pgraft_log_state" where
  "apply_scan idx i s =
     (if i < log_size s then
        (if le_index (ls_entries s i) = idx then
           (if \<not> le_committed (ls_entries s i) then (- 1, s)
            else
              (0, s\<lparr>ls_entries := (ls_entries s)(i := (ls_entries s i)\<lparr>le_applied := True\<rparr>),
                   last_applied := (if idx > last_applied s then idx else last_applied s),
                   entries_applied := entries_applied s + 1\<rparr>))
         else apply_scan idx (i + 1) s)
      else (- 1, s))"
  by pat_completeness auto
termination
  by (relation "measure (\<lambda>(idx, i, s). nat (log_size s - i))") auto

definition pgraft_log_apply_entry :: "int \<Rightarrow> pgraft_log_state \<Rightarrow> int \<times> pgraft_log_state" where
  "pgraft_log_apply_entry idx s = apply_scan idx 0 s"

text \<open>
  \<open>pgraft_log_cleanup_old_entries (before_index)\<close>. The inner loop
  \<open>for (j = i; j < log_size - 1; j++) entries[j] = entries[j + 1]\<close> is
  \<open>shift_entries\<close>; the outer loop looks at slot \<open>i\<close> again after a removal
  (\<open>i--\<close> in the body, \<open>i++\<close> of the loop header).
\<close>

function shift_entries ::
  "(int \<Rightarrow> pgraft_log_entry) \<Rightarrow> int \<Rightarrow> int \<Rightarrow> (int \<Rightarrow> pgraft_log_entry)" where
  "shift_entries ents j n =
     (if j < n - 1 then shift_entries (ents(j := ents (j + 1))) (j + 1) n else ents)"
  by pat_completeness auto
termination
  by (relation "measure (\<lambda>(ents, j, n). nat (n - 1 - j))") auto

function cleanup_scan :: "int \<Rightarrow> int \<Rightarrow> pgraft_log_state \<Rightarrow> pgraft_log_state" where
  "cleanup_scan before_index i s =
     (if i < log_size s then
        (if le_index (ls_entries s i) < before_index then
           cleanup_scan before_index ((i - 1) + 1)
             (s\<lparr>ls_entries := shift_entries (ls_entries s) i (log_size s),
                log_size := log_size s - 1\<rparr>)
         else cleanup_scan before_index (i + 1) s)
      else s)"
  by pat_completeness auto
termination
  by (relation "measure (\<lambda>(b, i, s). nat (log_size s - i))") auto

definition pgraft_log_cleanup_old_entries :: "int \<Rightarrow> pgraft_log_state \<Rightarrow> pgraft_log_state" where
  "pgraft_log_cleanup_old_entries before_index s = cleanup_scan before_index 0 s"

text \<open>
  A run of the tracker: appends and cleanups in any order. \<open>assigned\<close> collects, for
  every append that returned 0, the index found in the slot the append filled.
\<close>

datatype log_op = Append int int "string option" int | Cleanup_before int

fun assigned :: "log_op list \<Rightarrow> pgraft_log_state \<Rightarrow> int list" where
  "assigned [] s = []"
| "assigned (Append now trm dat sz # ops) s =
     (case pgraft_log_append_entry now trm dat sz s of
        (Return r, s') \<Rightarrow>
          (if r = 0 then le_index (ls_entries s' (log_size s' - 1)) # assigned ops s'
           else assigned ops s')
      | (failed, s') \<Rightarrow> assigned ops s')"
| "assigned (Cleanup_before b # ops) s = assigned ops (pgraft_log_cleanup_old_entries b s)"

text \<open>
  The loop equations are unfolded by hand in the proofs (\<open>subst\<close>), one iteration
  at a time.
\<close>

declare commit_scan.simps [simp del]
declare apply_scan.simps [simp del]
declare shift_entries.simps [simp del]
declare cleanup_scan.simps [simp del]

section \<open>Declarations of pgraft\_core.h\<close>

text \<open>
  The header pgraft\_core.h declares the command, worker and cluster structures and the
  queue capacities. The functions below take the capacities and the buffer sizes they
  refer to (\<open>MAX_COMMANDS\<close>, \<open>MAX_APPLY_ENTRIES\<close>, \<open>sizeof\<close> of a character
  array) from a record of constants; the structures have the fields the code reads and
  writes. The accessors \<open>pgraft_worker_get_state\<close>, \<open>pgraft_core_get_shared_memory\<close>
  and \<open>pgraft_log_get_shared_memory\<close> attach the shared structure on first use, so it
  is an argument of the embedded function, and the test for a null result after the
  accessor has no branch. C's \<open>%\<close> truncates towards zero: it is \<open>smod\<close>.
\<close>

record core_constants =
  MAX_COMMANDS :: int
  MAX_APPLY_ENTRIES :: int
  sizeof_cmd_address :: nat
  sizeof_cmd_cluster_id :: nat
  sizeof_cmd_log_data :: nat
  sizeof_cmd_kv_key :: nat
  sizeof_cmd_kv_value :: nat
  sizeof_cmd_kv_client_id :: nat
  sizeof_apply_data :: nat
  sizeof_cluster_state :: nat
  sizeof_node_address :: nat

datatype COMMAND_TYPE =
  COMMAND_INIT | COMMAND_ADD_NODE | COMMAND_REMOVE_NODE
  | COMMAND_LOG_APPEND | COMMAND_LOG_COMMIT | COMMAND_LOG_APPLY
  | COMMAND_KV_PUT | COMMAND_KV_DELETE | COMMAND_SHUTDOWN

datatype COMMAND_STATUS =
  COMMAND_STATUS_PENDING | COMMAND_STATUS_PROCESSING
  | COMMAND_STATUS_COMPLETED | COMMAND_STATUS_FAILED

datatype WORKER_STATUS =
  WORKER_STATUS_STOPPED | WORKER_STATUS_INITIALIZING
  | WORKER_STATUS_RUNNING | WORKER_STATUS_STOPPING

record pgraft_command =
  cmd_type :: COMMAND_TYPE
  cmd_node_id :: int
  cmd_address :: string
  cmd_port :: int
  cmd_cluster_id :: string
  cmd_log_data :: string
  cmd_log_index :: int
  cmd_kv_key :: string
  cmd_kv_value :: string
  cmd_kv_client_id :: string
  cmd_status :: COMMAND_STATUS
  cmd_error_message :: string
  cmd_timestamp :: int

text \<open>
  An apply-queue slot. \<open>ae_data\<close> is the whole byte buffer of the slot; \<open>memcpy\<close> of
  \<open>n\<close> bytes replaces its first \<open>n\<close> bytes.
\<close>

record pgraft_apply_entry =
  raft_index :: nat
  ae_data :: string
  data_len :: nat
  applied :: bool

record pgraft_worker_state =
  ws_node_id :: int
  ws_address :: string
  ws_port :: int
  ws_status :: WORKER_STATUS
  commands :: "int \<Rightarrow> pgraft_command"
  command_head :: int
  command_tail :: int
  command_count :: int
  status_commands :: "int \<Rightarrow> pgraft_command"
  status_head :: int
  status_tail :: int
  status_count :: int
  apply_queue :: "int \<Rightarrow> pgraft_apply_entry"
  apply_head :: int
  apply_tail :: int
  apply_count :: int
  ws_last_applied_index :: nat

record pgraft_node =
  node_ident :: int
  node_address :: string
  node_port :: int
  is_leader :: bool

record pgraft_cluster =
  initialized :: bool
  node_id :: int
  current_term :: int
  leader_id :: int
  state :: string
  num_nodes :: int
  nodes :: "int \<Rightarrow> pgraft_node"
  messages_processed :: int
  heartbeats_sent :: int
  elections_triggered :: int

definition strncpy_term :: "nat \<Rightarrow> string \<Rightarrow> string" where
  "strncpy_term size_of src = take (size_of - 1) src"

definition copy_or_empty :: "nat \<Rightarrow> string option \<Rightarrow> string" where
  "copy_or_empty size_of src = (case src of Some str \<Rightarrow> strncpy_term size_of str | None \<Rightarrow> [])"

section \<open>Command queue and apply queue (pgraft\_util.c)\<close>

text \<open>\<open>pgraft_queue_command (type, node_id, address, port, cluster_id)\<close>.\<close>

definition pgraft_queue_command ::
  "core_constants \<Rightarrow> int \<Rightarrow> COMMAND_TYPE \<Rightarrow> int \<Rightarrow> string option \<Rightarrow> int \<Rightarrow> string option
   \<Rightarrow> pgraft_worker_state \<Rightarrow> bool \<times> pgraft_worker_state" where
  "pgraft_queue_command h now type nid address port cluster_id st =
     (if command_count st \<ge> MAX_COMMANDS h then (False, st)
      else
        let cmd = (commands st (command_tail st))
              \<lparr>cmd_type := type,
               cmd_node_id := nid,
               cmd_address := copy_or_empty (sizeof_cmd_address h) address,
               cmd_port := port,
               cmd_cluster_id := copy_or_empty (sizeof_cmd_cluster_id h) cluster_id,
               cmd_status := COMMAND_STATUS_PENDING,
               cmd_error_message := [],
               cmd_timestamp := now\<rparr>
        in (True,
            st\<lparr>commands := (commands st)(command_tail st := cmd),
               command_tail := (command_tail st + 1) smod MAX_COMMANDS h,
               command_count := command_count st + 1\<rparr>))"

text \<open>\<open>pgraft_queue_log_command (type, log_data, log_index)\<close>.\<close>

definition pgraft_queue_log_command ::
  "core_constants \<Rightarrow> int \<Rightarrow> COMMAND_TYPE \<Rightarrow> string option \<Rightarrow> int
   \<Rightarrow> pgraft_worker_state \<Rightarrow> bool \<times> pgraft_worker_state" where
  "pgraft_queue_log_command h now type log_data log_index st =
     (if command_count st \<ge> MAX_COMMANDS h then (False, st)
      else
        let cmd = (commands st (command_tail st))
              \<lparr>cmd_type := type,
               cmd_node_id := 0,
               cmd_address := [],
               cmd_port := 0,
               cmd_cluster_id := [],
               cmd_log_data := copy_or_empty (sizeof_cmd_log_data h) log_data,
               cmd_log_index := log_index,
               cmd_status := COMMAND_STATUS_PENDING,
               cmd_error_message := [],
               cmd_timestamp := now\<rparr>
        in (True,
            st\<lparr>commands := (commands st)(command_tail st := cmd),
               command_tail := (command_tail st + 1) smod MAX_COMMANDS h,
               command_count := command_count st + 1\<rparr>))"

text \<open>\<open>pgraft_queue_kv_command (type, key, value, client_id)\<close>.\<close>

definition pgraft_queue_kv_command ::
  "core_constants \<Rightarrow> int \<Rightarrow> COMMAND_TYPE \<Rightarrow> string option \<Rightarrow> string option \<Rightarrow> string option
   \<Rightarrow> pgraft_worker_state \<Rightarrow> bool \<times> pgraft_worker_state" where
  "pgraft_queue_kv_command h now type key val client_id st =
     (if command_count st \<ge> MAX_COMMANDS h then (False, st)
      else
        let cmd = (commands st (command_tail st))
              \<lparr>cmd_type := type,
               cmd_node_id := 0,
               cmd_address := [],
               cmd_port := 0,
               cmd_cluster_id := [],
               cmd_kv_key := copy_or_empty (sizeof_cmd_kv_key h) key,
               cmd_kv_value := copy_or_empty (sizeof_cmd_kv_value h) val,
               cmd_kv_client_id := copy_or_empty (sizeof_cmd_kv_client_id h) client_id,
               cmd_status := COMMAND_STATUS_PENDING,
               cmd_error_message := [],
               cmd_timestamp := now\<rparr>
        in (True,
            st\<lparr>commands := (commands st)(command_tail st := cmd),
               command_tail := (command_tail st + 1) smod MAX_COMMANDS h,
               command_count := command_count st + 1\<rparr>))"

text \<open>
  \<open>pgraft_dequeue_command (cmd)\<close>: the command copied out of the head slot, or
  \<open>None\<close> for the result false.
\<close>

definition pgraft_dequeue_command ::
  "core_constants \<Rightarrow> pgraft_worker_state \<Rightarrow> pgraft_command option \<times> pgraft_worker_state" where
  "pgraft_dequeue_command h st =
     (if command_count st = 0 then (None, st)
      else (Some (commands st (command_head st)),
            st\<lparr>command_head := (command_head st + 1) smod MAX_COMMANDS h,
               command_count := command_count st - 1\<rparr>))"

text \<open>
  The queued commands in the order \<open>pgraft_dequeue_command\<close> hands them out: \<open>n\<close>
  slots from \<open>head\<close> on, around the ring.
\<close>

fun ring_contents :: "int \<Rightarrow> (int \<Rightarrow> 'a) \<Rightarrow> int \<Rightarrow> nat \<Rightarrow> 'a list" where
  "ring_contents cap slots head 0 = []"
| "ring_contents cap slots head (Suc n) =
     slots head # ring_contents cap slots ((head + 1) smod cap) n"

definition queued_commands :: "core_constants \<Rightarrow> pgraft_worker_state \<Rightarrow> pgraft_command list" where
  "queued_commands h st =
     ring_contents (MAX_COMMANDS h) (commands st) (command_head st) (nat (command_count st))"

text \<open>
  \<open>pgraft_enqueue_apply_entry (raft_index, data, data_len)\<close>. The payload is copied
  only when the pointer is not null and the length is positive; both rejections are a
  WARNING and the result false.
\<close>

definition pgraft_enqueue_apply_entry ::
  "core_constants \<Rightarrow> nat \<Rightarrow> string option \<Rightarrow> nat
   \<Rightarrow> pgraft_worker_state \<Rightarrow> bool \<times> pgraft_worker_state" where
  "pgraft_enqueue_apply_entry h ridx dat dlen st =
     (if apply_count st \<ge> MAX_APPLY_ENTRIES h then (False, st)
      else if dlen > sizeof_apply_data h then (False, st)
      else
        let entry = (apply_queue st (apply_tail st))\<lparr>raft_index := ridx, data_len := dlen\<rparr>;
            entry = (if dat \<noteq> None \<and> dlen > 0
                     then entry\<lparr>ae_data := take dlen (the dat) @ drop dlen (ae_data entry)\<rparr>
                     else entry);
            entry = entry\<lparr>applied := False\<rparr>
        in (True,
            st\<lparr>apply_queue := (apply_queue st)(apply_tail st := entry),
               apply_tail := (apply_tail st + 1) smod MAX_APPLY_ENTRIES h,
               apply_count := apply_count st + 1\<rparr>))"

text \<open>\<open>pgraft_dequeue_apply_entry (entry)\<close>, for a non-null \<open>entry\<close>.\<close>

definition pgraft_dequeue_apply_entry ::
  "core_constants \<Rightarrow> pgraft_worker_state \<Rightarrow> pgraft_apply_entry option \<times> pgraft_worker_state" where
  "pgraft_dequeue_apply_entry h st =
     (if apply_count st = 0 then (None, st)
      else (Some (apply_queue st (apply_head st)),
            st\<lparr>apply_head := (apply_head st + 1) smod MAX_APPLY_ENTRIES h,
               apply_count := apply_count st - 1\<rparr>))"

section \<open>Cluster descriptor (pgraft\_core.c)\<close>

text \<open>
  \<open>pgraft_core_init (node_id, address, port)\<close>. The first test, under the lock, is the
  \<open>initialized\<close> flag.
\<close>

definition pgraft_core_init ::
  "core_constants \<Rightarrow> int \<Rightarrow> string \<Rightarrow> int \<Rightarrow> pgraft_cluster \<Rightarrow> int \<times> pgraft_cluster" where
  "pgraft_core_init h nid address port cluster =
     (if initialized cluster then (0, cluster)
      else
        (0, cluster
             \<lparr>node_id := nid,
              current_term := 0,
              leader_id := - 1,
              state := strncpy_term (sizeof_cluster_state h) ''follower'',
              num_nodes := 1,
              messages_processed := 0,
              heartbeats_sent := 0,
              elections_triggered := 0,
              nodes := (nodes cluster)(0 := (nodes cluster 0)
                 \<lparr>node_ident := nid,
                  node_address := strncpy_term (sizeof_node_address h) address,
                  node_port := port,
                  is_leader := False\<rparr>),
              initialized := True\<rparr>))"

text \<open>The descriptor \<open>pgraft_core_init_shared_memory\<close> creates.\<close>

definition pgraft_core_init_shared_memory :: "core_constants \<Rightarrow> pgraft_cluster" where
  "pgraft_core_init_shared_memory h =
     \<lparr>initialized = False, node_id = - 1, current_term = 0, leader_id = - 1,
      state = strncpy_term (sizeof_cluster_state h) ''stopped'', num_nodes = 0,
      nodes = (\<lambda>_. \<lparr>node_ident = 0, node_address = [], node_port = 0, is_leader = False\<rparr>),
      messages_processed = 0, heartbeats_sent = 0, elections_triggered = 0\<rparr>"

section \<open>Key/value store (pgraft\_kv.h, pgraft\_kv.c)\<close>

text \<open>
  \<open>pgraft_kv_entry_t\<close> and \<open>pgraft_kv_store_t\<close> (without the spinlock, which the
  persistence code neither saves nor restores). \<open>g_kv_store\<close> is a plain static
  pointer, null until \<open>pgraft_kv_init_shared_memory\<close> has run in the process, so it is
  an \<open>option\<close> in the state.
\<close>

record pgraft_kv_entry =
  kv_key :: string
  kv_value :: string
  version :: int
  created_at :: int
  updated_at :: int
  log_index :: int
  deleted :: bool

record pgraft_kv_store =
  entries :: "int \<Rightarrow> pgraft_kv_entry"
  num_entries :: int
  total_operations :: int
  last_applied_index :: int
  puts :: int
  deletes :: int
  gets :: int

definition PGRAFT_KV_PUT :: int where "PGRAFT_KV_PUT = 1"
definition PGRAFT_KV_DELETE :: int where "PGRAFT_KV_DELETE = 2"
definition PGRAFT_KV_GET :: int where "PGRAFT_KV_GET = 3"

definition PGRAFT_KV_PERSIST_FILE :: string where
  "PGRAFT_KV_PERSIST_FILE = ''/tmp/pgraft_kv_store.dat''"

text \<open>
  A snapshot file on disk holds the raw image of a store structure, or fewer bytes than
  one structure (just created or truncated by \<open>fopen (path, "wb")\<close>, or cut short).
  Whether a call of the C library succeeds is decided by the environment: \<open>fopen\<close>,
  \<open>fwrite\<close> and \<open>rename\<close> by a flag each; the \<open>n\<close>-th \<open>fprintf\<close> of a writer by
  \<open>fprintf_short n\<close>, which is \<open>None\<close> when the whole text is written and \<open>Some m\<close>
  when only its first \<open>m\<close> characters are; \<open>fclose\<close> by \<open>fclose_short\<close>, which is
  \<open>None\<close> when everything printed is in the file and \<open>Some m\<close> when the file is left
  with the first \<open>m\<close> characters only.
\<close>

datatype kv_file = Short_file | Store_image pgraft_kv_store

record file_io =
  fopen_ok :: bool
  fwrite_ok :: bool
  rename_ok :: bool
  fprintf_short :: "nat \<Rightarrow> nat option"
  fclose_short :: "nat option"

text \<open>
  The state the key/value code and the apply pipeline work on: the store behind
  \<open>g_kv_store\<close>, the snapshot files, and the worker state that records the applied
  index.
\<close>

record world =
  g_kv_store :: "pgraft_kv_store option"
  kv_disk :: "string \<Rightarrow> kv_file option"
  worker :: pgraft_worker_state

definition zero_kv_entry :: pgraft_kv_entry where
  "zero_kv_entry = \<lparr>kv_key = [], kv_value = [], version = 0, created_at = 0, updated_at = 0,
     log_index = 0, deleted = False\<rparr>"

definition zero_kv_store :: pgraft_kv_store where
  "zero_kv_store = \<lparr>entries = (\<lambda>_. zero_kv_entry), num_entries = 0, total_operations = 0,
     last_applied_index = 0, puts = 0, deletes = 0, gets = 0\<rparr>"

text \<open>
  \<open>pgraft_kv_find_entry_index (key)\<close>: the first slot below \<open>num_entries\<close> that is
  not deleted and holds the key, or -1.
\<close>

function find_entry_scan :: "pgraft_kv_store \<Rightarrow> string \<Rightarrow> int \<Rightarrow> int" where
  "find_entry_scan store key i =
     (if i < num_entries store then
        (if \<not> deleted (entries store i) \<and> kv_key (entries store i) = key then i
         else find_entry_scan store key (i + 1))
      else - 1)"
  by pat_completeness auto
termination
  by (relation "measure (\<lambda>(store, key, i). nat (num_entries store - i))") auto

definition pgraft_kv_find_entry_index :: "pgraft_kv_store option \<Rightarrow> string option \<Rightarrow> int" where
  "pgraft_kv_find_entry_index g key =
     (case (g, key) of
        (Some store, Some k) \<Rightarrow> find_entry_scan store k 0
      | _ \<Rightarrow> - 1)"

text \<open>
  \<open>pgraft_kv_save_to_disk (path)\<close> opens the path itself for writing, which leaves
  an empty file there, and then writes the structure into it. \<open>kv_save_disk_states\<close>
  lists the states the disk goes through during the call, in order; the call ends in the
  last of them.
\<close>

definition kv_save_disk_states ::
  "file_io \<Rightarrow> string \<Rightarrow> pgraft_kv_store \<Rightarrow> (string \<Rightarrow> kv_file option)
   \<Rightarrow> (string \<Rightarrow> kv_file option) list" where
  "kv_save_disk_states io path store disk =
     (if \<not> fopen_ok io then []
      else disk(path \<mapsto> Short_file)
           # (if fwrite_ok io then [disk(path \<mapsto> Store_image store)] else []))"

definition pgraft_kv_save_to_disk :: "file_io \<Rightarrow> string option \<Rightarrow> world \<Rightarrow> int \<times> world" where
  "pgraft_kv_save_to_disk io path w =
     (case (g_kv_store w, path) of
        (Some store, Some p) \<Rightarrow>
          if \<not> fopen_ok io then (- 1, w)
          else
            let w' = w\<lparr>kv_disk := last (kv_disk w # kv_save_disk_states io p store (kv_disk w))\<rparr>
            in if \<not> fwrite_ok io then (- 1, w') else (0, w')
      | _ \<Rightarrow> (- 1, w))"

text \<open>
  \<open>pgraft_kv_load_from_disk (path)\<close>: \<open>fread\<close> of one structure succeeds on a file
  that holds a whole image; every field except the lock is then copied into the store.
\<close>

definition pgraft_kv_load_from_disk :: "file_io \<Rightarrow> string option \<Rightarrow> world \<Rightarrow> int \<times> world" where
  "pgraft_kv_load_from_disk io path w =
     (case (g_kv_store w, path) of
        (Some store, Some p) \<Rightarrow>
          (if \<not> fopen_ok io then (- 1, w)
           else case kv_disk w p of
             None \<Rightarrow> (- 1, w)
           | Some Short_file \<Rightarrow> (- 1, w)
           | Some (Store_image temp_store) \<Rightarrow>
               (0, w\<lparr>g_kv_store := Some (store
                      \<lparr>entries := entries temp_store,
                       num_entries := num_entries temp_store,
                       total_operations := total_operations temp_store,
                       last_applied_index := last_applied_index temp_store,
                       puts := puts temp_store,
                       deletes := deletes temp_store,
                       gets := gets temp_store\<rparr>)\<rparr>))
      | _ \<Rightarrow> (- 1, w))"

text \<open>
  \<open>pgraft_kv_init_shared_memory\<close>; \<open>found\<close> is what \<open>ShmemInitStruct\<close> reports,
  \<open>shmem\<close> the structure found in shared memory in that case.
\<close>

definition pgraft_kv_init_shared_memory ::
  "file_io \<Rightarrow> bool \<Rightarrow> pgraft_kv_store \<Rightarrow> world \<Rightarrow> world" where
  "pgraft_kv_init_shared_memory io found shmem w =
     (if \<not> found then
        snd (pgraft_kv_load_from_disk io (Some PGRAFT_KV_PERSIST_FILE)
               (w\<lparr>g_kv_store := Some zero_kv_store\<rparr>))
      else w\<lparr>g_kv_store := Some shmem\<rparr>)"

text \<open>
  \<open>pgraft_kv_put (key, value, log_index)\<close>. The three rejections are
  \<open>elog (ERROR, ...)\<close>. The result of the save at the end is not looked at.
\<close>

definition pgraft_kv_put ::
  "file_io \<Rightarrow> int \<Rightarrow> string option \<Rightarrow> string option \<Rightarrow> int \<Rightarrow> world \<Rightarrow> int outcome \<times> world" where
  "pgraft_kv_put io now key val lidx w =
     (case (g_kv_store w, key, val) of
        (Some store, Some k, Some v) \<Rightarrow>
          if length k \<ge> 256 then (Elog_error, w)
          else if length v \<ge> 1024 then (Elog_error, w)
          else
            let entry_index = pgraft_kv_find_entry_index (g_kv_store w) key in
            if entry_index \<ge> 0 then
              let entry = (entries store entry_index)
                    \<lparr>kv_value := strncpy_term 1024 v,
                     version := version (entries store entry_index) + 1,
                     updated_at := now,
                     log_index := lidx,
                     deleted := False\<rparr>;
                  store' = store
                    \<lparr>entries := (entries store)(entry_index := entry),
                     puts := puts store + 1,
                     total_operations := total_operations store + 1,
                     last_applied_index := lidx\<rparr>
              in (Return 0,
                  snd (pgraft_kv_save_to_disk io (Some PGRAFT_KV_PERSIST_FILE)
                         (w\<lparr>g_kv_store := Some store'\<rparr>)))
            else if num_entries store \<ge> 1000 then (Elog_error, w)
            else
              let entry = (entries store (num_entries store))
                    \<lparr>kv_key := strncpy_term 256 k,
                     kv_value := strncpy_term 1024 v,
                     version := 1,
                     created_at := now,
                     updated_at := now,
                     log_index := lidx,
                     deleted := False\<rparr>;
                  store' = store
                    \<lparr>entries := (entries store)(num_entries store := entry),
                     num_entries := num_entries store + 1,
                     puts := puts store + 1,
                     total_operations := total_operations store + 1,
                     last_applied_index := lidx\<rparr>
              in (Return 0,
                  snd (pgraft_kv_save_to_disk io (Some PGRAFT_KV_PERSIST_FILE)
                         (w\<lparr>g_kv_store := Some store'\<rparr>)))
      | _ \<Rightarrow> (Elog_error, w))"

text \<open>
  \<open>pgraft_kv_get (key, value, value_size, version)\<close> for non-null result pointers:
  the result code together with the copied value and the version.
\<close>

definition pgraft_kv_get ::
  "string option \<Rightarrow> nat \<Rightarrow> world \<Rightarrow> (int \<times> (string \<times> int) option) outcome \<times> world" where
  "pgraft_kv_get key value_size w =
     (case (g_kv_store w, key) of
        (Some store, Some k) \<Rightarrow>
          let entry_index = pgraft_kv_find_entry_index (g_kv_store w) key in
          if entry_index < 0 then (Return (- 1, None), w)
          else
            let entry = entries store entry_index in
            (Return (0, Some (strncpy_term value_size (kv_value entry), version entry)),
             w\<lparr>g_kv_store := Some (store\<lparr>gets := gets store + 1,
                                           total_operations := total_operations store + 1\<rparr>)\<rparr>)
      | _ \<Rightarrow> (Elog_error, w))"

text \<open>
  \<open>pgraft_kv_delete (key, log_index)\<close>: a missing key is the result -1, below the
  level of an error.
\<close>

definition pgraft_kv_delete ::
  "file_io \<Rightarrow> int \<Rightarrow> string option \<Rightarrow> int \<Rightarrow> world \<Rightarrow> int outcome \<times> world" where
  "pgraft_kv_delete io now key lidx w =
     (case (g_kv_store w, key) of
        (Some store, Some k) \<Rightarrow>
          let entry_index = pgraft_kv_find_entry_index (g_kv_store w) key in
          if entry_index < 0 then (Return (- 1), w)
          else
            let entry = (entries store entry_index)
                  \<lparr>deleted := True,
                   updated_at := now,
                   log_index := lidx,
                   version := version (entries store entry_index) + 1\<rparr>;
                store' = store
                  \<lparr>entries := (entries store)(entry_index := entry),
                   deletes := deletes store + 1,
                   total_operations := total_operations store + 1,
                   last_applied_index := lidx\<rparr>
            in (Return 0,
                snd (pgraft_kv_save_to_disk io (Some PGRAFT_KV_PERSIST_FILE)
                       (w\<lparr>g_kv_store := Some store'\<rparr>)))
      | _ \<Rightarrow> (Elog_error, w))"

text \<open>
  \<open>pgraft_kv_exists (key)\<close>, and the two entry points of the apply pipeline, which
  pass 0 as the log index.
\<close>

definition pgraft_kv_exists :: "string option \<Rightarrow> world \<Rightarrow> bool" where
  "pgraft_kv_exists key w =
     (case (g_kv_store w, key) of
        (Some store, Some k) \<Rightarrow> pgraft_kv_find_entry_index (g_kv_store w) key \<ge> 0
      | _ \<Rightarrow> False)"

definition pgraft_kv_put_local ::
  "file_io \<Rightarrow> int \<Rightarrow> string option \<Rightarrow> string option \<Rightarrow> world \<Rightarrow> int outcome \<times> world" where
  "pgraft_kv_put_local io now key val w = pgraft_kv_put io now key val 0 w"

definition pgraft_kv_delete_local ::
  "file_io \<Rightarrow> int \<Rightarrow> string option \<Rightarrow> world \<Rightarrow> int outcome \<times> world" where
  "pgraft_kv_delete_local io now key w = pgraft_kv_delete io now key 0 w"

text \<open>
  \<open>pgraft_kv_apply_log_entry (log_entry, log_index)\<close>, the entry point that takes an
  already decoded operation: it passes the log index on to the store.
\<close>

record pgraft_kv_log_entry =
  op_type :: int
  kle_key :: string
  kle_value :: string
  kle_timestamp :: int
  kle_client_id :: string

definition pgraft_kv_apply_log_entry ::
  "file_io \<Rightarrow> int \<Rightarrow> pgraft_kv_log_entry option \<Rightarrow> int \<Rightarrow> world \<Rightarrow> int outcome \<times> world" where
  "pgraft_kv_apply_log_entry io now log_entry lidx w =
     (case log_entry of
        None \<Rightarrow> (Return (- 1), w)
      | Some le \<Rightarrow>
          if op_type le = PGRAFT_KV_PUT then
            pgraft_kv_put io now (Some (kle_key le)) (Some (kle_value le)) lidx w
          else if op_type le = PGRAFT_KV_DELETE then
            pgraft_kv_delete io now (Some (kle_key le)) lidx w
          else (Return (- 1), w))"

declare find_entry_scan.simps [simp del]

section \<open>Cluster state file (pgraft.c)\<close>





definition dquote :: char where "dquote = CHR 0x22"















section \<open>JSON payloads (pgraft\_json.c)\<close>

text \<open>
  The json-c library is outside the repository. Its parser \<open>json_tokener_parse\<close> and
  its printer \<open>json_object_to_json_string\<close> are functions of the environment; the
  objects they work on are a datatype, with a null pointer (also json-c's value for JSON
  \<open>null\<close>) as \<open>None\<close>. \<open>json_object_object_get_ex\<close> reports whether a key is
  present in an object and hands out its value; \<open>json_object_get_string\<close> yields the
  text of a string, the printed form of any other value and a null pointer for a null
  object.
\<close>

datatype json_object =
  Json_string string
  | Json_object "(string \<times> json_object option) list"
  | Json_other

record apply_env =
  json_tokener_parse :: "string \<Rightarrow> json_object option"
  json_object_to_json_string :: "json_object \<Rightarrow> string"
  SPI_connect_ok :: bool
  SPI_execute :: "string \<Rightarrow> int"
  file_env :: file_io

definition json_object_object_get_ex :: "json_object \<Rightarrow> string \<Rightarrow> json_object option option" where
  "json_object_object_get_ex obj name =
     (case obj of Json_object members \<Rightarrow> map_of members name | _ \<Rightarrow> None)"

definition json_object_get_string :: "apply_env \<Rightarrow> json_object option \<Rightarrow> string option" where
  "json_object_get_string env obj =
     (case obj of
        None \<Rightarrow> None
      | Some (Json_string str) \<Rightarrow> Some str
      | Some other \<Rightarrow> Some (json_object_to_json_string env other))"

text \<open>
  \<open>pgraft_json_parse_kv_operation (json_data, len, &op_type, &key, &value)\<close>: the
  result code with the three values it stores through its pointers. Every failure it
  detects is reported with \<open>elog (ERROR, ...)\<close>. \<open>strcmp\<close> and \<open>pstrdup\<close> on a
  null string (a JSON \<open>null\<close> as type, key or value) read through a null pointer.
\<close>

definition pgraft_json_parse_kv_operation ::
  "apply_env \<Rightarrow> string \<Rightarrow> (int \<times> int \<times> string option \<times> string option) outcome" where
  "pgraft_json_parse_kv_operation env json_data =
     (case json_tokener_parse env json_data of
        None \<Rightarrow> Elog_error
      | Some json_obj \<Rightarrow>
     (case json_object_object_get_ex json_obj ''type'' of
        None \<Rightarrow> Elog_error
      | Some type_obj \<Rightarrow>
     (case json_object_object_get_ex json_obj ''key'' of
        None \<Rightarrow> Elog_error
      | Some key_obj \<Rightarrow>
     (case json_object_get_string env type_obj of
        None \<Rightarrow> Null_pointer_read
      | Some type_str \<Rightarrow>
          if type_str = ''kv_put'' then
            (case json_object_object_get_ex json_obj ''value'' of
               None \<Rightarrow> Elog_error
             | Some value_obj \<Rightarrow>
                 (case json_object_get_string env value_obj of
                    None \<Rightarrow> Null_pointer_read
                  | Some value_str \<Rightarrow>
                      (case json_object_get_string env key_obj of
                         None \<Rightarrow> Null_pointer_read
                       | Some key_str \<Rightarrow>
                           Return (0, PGRAFT_KV_PUT, Some key_str, Some value_str))))
          else if type_str = ''kv_delete'' then
            (case json_object_get_string env key_obj of
               None \<Rightarrow> Null_pointer_read
             | Some key_str \<Rightarrow> Return (0, PGRAFT_KV_DELETE, Some key_str, None))
          else Elog_error))))"

section \<open>Apply pipeline (pgraft\_apply.c)\<close>

text \<open>
  \<open>pgraft_record_applied_index (index)\<close> stores the index in the worker state.
\<close>

definition pgraft_record_applied_index :: "nat \<Rightarrow> world \<Rightarrow> world" where
  "pgraft_record_applied_index idx w = w\<lparr>worker := (worker w)\<lparr>ws_last_applied_index := idx\<rparr>\<rparr>"

definition pgraft_get_applied_index :: "world \<Rightarrow> nat" where
  "pgraft_get_applied_index w = ws_last_applied_index (worker w)"

text \<open>
  \<open>pgraft_apply_kv_operation (raft_index, json_data, len)\<close>. The index is used in the
  log message only. A result other than 0 from the store is reported with
  \<open>elog (ERROR, ...)\<close>, as are missing operands and an unknown operation type.
\<close>

definition pgraft_apply_kv_operation ::
  "apply_env \<Rightarrow> int \<Rightarrow> nat \<Rightarrow> string \<Rightarrow> world \<Rightarrow> int outcome \<times> world" where
  "pgraft_apply_kv_operation env now ridx json_data w =
     (case pgraft_json_parse_kv_operation env json_data of
        Elog_error \<Rightarrow> (Elog_error, w)
      | Null_pointer_read \<Rightarrow> (Null_pointer_read, w)
      | Return (rc, op, key, val) \<Rightarrow>
          if rc \<noteq> 0 then (Return (- 1), w)
          else if op = PGRAFT_KV_PUT then
            (if key = None \<or> val = None then (Elog_error, w)
             else
               (case pgraft_kv_put_local (file_env env) now key val w of
                  (Return result, w') \<Rightarrow>
                    if result = 0 then (Return 0, w') else (Elog_error, w')
                | (failed, w') \<Rightarrow> (failed, w')))
          else if op = PGRAFT_KV_DELETE then
            (if key = None then (Elog_error, w)
             else
               (case pgraft_kv_delete_local (file_env env) now key w of
                  (Return result, w') \<Rightarrow>
                    if result = 0 then (Return 0, w') else (Elog_error, w')
                | (failed, w') \<Rightarrow> (failed, w')))
          else (Elog_error, w))"

text \<open>
  \<open>pgraft_parse_log_entry (data, len)\<close> for the positional format
  \<open>index|term|op|database|schema|sql\<close>. \<open>strtok_tokens\<close> is the sequence of tokens
  repeated \<open>strtok_r\<close> calls cut out: the non-empty runs between delimiters. The numeric
  fields \<open>index\<close>, \<open>term\<close> and \<open>op\<close> are converted and then only logged; the record
  keeps the three text fields. \<open>pgraft_json_parse_log_entry\<close> returns a null pointer for
  every input.
\<close>

fun strtok_tokens :: "char \<Rightarrow> string \<Rightarrow> string \<Rightarrow> string list" where
  "strtok_tokens delim cur [] = (if cur = [] then [] else [rev cur])"
| "strtok_tokens delim cur (c # cs) =
     (if c = delim then
        (if cur = [] then strtok_tokens delim [] cs
         else rev cur # strtok_tokens delim [] cs)
      else strtok_tokens delim (c # cur) cs)"

record PgRaftLogEntry =
  ple_database :: string
  ple_schema :: string
  ple_sql :: string

definition first_char_is :: "char \<Rightarrow> string \<Rightarrow> bool" where
  "first_char_is c str = (case str of [] \<Rightarrow> False | x # _ \<Rightarrow> x = c)"

definition pgraft_json_parse_log_entry :: "string \<Rightarrow> nat \<Rightarrow> PgRaftLogEntry option" where
  "pgraft_json_parse_log_entry json_data len = None"

definition pgraft_parse_log_entry :: "string option \<Rightarrow> nat \<Rightarrow> PgRaftLogEntry option" where
  "pgraft_parse_log_entry dat len =
     (case dat of
        None \<Rightarrow> None
      | Some d \<Rightarrow>
          if len = 0 then None
          else if first_char_is (CHR ''{'') d then pgraft_json_parse_log_entry d len
          else
            let tokens = strtok_tokens (CHR ''|'') [] (take len d) in
            if length tokens < 6 then None
            else Some \<lparr>ple_database = take 63 (tokens ! 3),
                       ple_schema = take 63 (tokens ! 4),
                       ple_sql = take 4095 (tokens ! 5)\<rparr>)"

text \<open>
  \<open>pgraft_apply_entry_to_postgres (raft_index, data, len)\<close>. A payload that starts
  with an opening brace goes to the key/value store, any other to the host database
  through SPI, whose connection and execution results come from the environment. The
  applied index is recorded after a result of 0, and nowhere compared with the index of
  the entry.
\<close>

definition pgraft_apply_entry_to_postgres ::
  "apply_env \<Rightarrow> int \<Rightarrow> nat \<Rightarrow> string \<Rightarrow> nat \<Rightarrow> world \<Rightarrow> int outcome \<times> world" where
  "pgraft_apply_entry_to_postgres env now ridx dat len w =
     (if first_char_is (CHR ''{'') dat then
        (case pgraft_apply_kv_operation env now ridx dat w of
           (Return ret, w') \<Rightarrow>
             if ret = 0 then (Return ret, pgraft_record_applied_index ridx w')
             else (Return ret, w')
         | (failed, w') \<Rightarrow> (failed, w'))
      else
        (case pgraft_parse_log_entry (Some dat) len of
           None \<Rightarrow> (Return (- 1), w)
         | Some entry \<Rightarrow>
             if \<not> SPI_connect_ok env then (Return (- 1), w)
             else if SPI_execute env (ple_sql entry) < 0 then (Return (- 1), w)
             else (Return 0, pgraft_record_applied_index ridx w)))"

text \<open>\<open>pgraft_go_apply_callback\<close>, the entry point the consensus engine calls.\<close>

definition pgraft_go_apply_callback ::
  "apply_env \<Rightarrow> int \<Rightarrow> nat \<Rightarrow> string \<Rightarrow> nat \<Rightarrow> world \<Rightarrow> int outcome \<times> world" where
  "pgraft_go_apply_callback env now ridx dat len w =
     pgraft_apply_entry_to_postgres env now ridx dat len w"

section \<open>Concrete states and inputs\<close>

text \<open>
  Small constants, states and payloads on which the properties below are run.
\<close>

definition log_run_example :: "log_op list" where
  "log_run_example =
     [Append 10 1 (Some ''a'') 1, Append 11 1 (Some ''b'') 2000, Append 12 1 (Some ''c'') 1,
      Cleanup_before 2, Append 13 2 None 0]"

definition log_one_entry :: pgraft_log_state where
  "log_one_entry =
     snd (pgraft_log_append_entry 10 1 (Some ''a'') 1 pgraft_log_init_shared_memory)"

definition small_constants :: core_constants where
  "small_constants =
     \<lparr>MAX_COMMANDS = 2, MAX_APPLY_ENTRIES = 2, sizeof_cmd_address = 256,
      sizeof_cmd_cluster_id = 64, sizeof_cmd_log_data = 1024, sizeof_cmd_kv_key = 256,
      sizeof_cmd_kv_value = 1024, sizeof_cmd_kv_client_id = 64, sizeof_apply_data = 4,
      sizeof_cluster_state = 32, sizeof_node_address = 256\<rparr>"

definition zero_command :: pgraft_command where
  "zero_command =
     \<lparr>cmd_type = COMMAND_INIT, cmd_node_id = 0, cmd_address = [], cmd_port = 0,
      cmd_cluster_id = [], cmd_log_data = [], cmd_log_index = 0, cmd_kv_key = [],
      cmd_kv_value = [], cmd_kv_client_id = [], cmd_status = COMMAND_STATUS_PENDING,
      cmd_error_message = [], cmd_timestamp = 0\<rparr>"

definition fresh_worker_state :: pgraft_worker_state where
  "fresh_worker_state =
     \<lparr>ws_node_id = 0, ws_address = ''127.0.0.1'', ws_port = 0,
      ws_status = WORKER_STATUS_STOPPED,
      commands = (\<lambda>_. zero_command), command_head = 0, command_tail = 0, command_count = 0,
      status_commands = (\<lambda>_. zero_command), status_head = 0, status_tail = 0,
      status_count = 0,
      apply_queue = (\<lambda>_. \<lparr>raft_index = 0, ae_data = replicate 4 (CHR 0x00), data_len = 0,
                             applied = False\<rparr>),
      apply_head = 0, apply_tail = 0, apply_count = 0, ws_last_applied_index = 0\<rparr>"

definition full_command_queue :: pgraft_worker_state where
  "full_command_queue =
     snd (pgraft_queue_kv_command small_constants 101 COMMAND_KV_PUT (Some ''alpha'') (Some ''1'')
            (Some ''pg_1'')
       (snd (pgraft_queue_command small_constants 100 COMMAND_ADD_NODE 2 (Some ''10.0.0.2'') 7000
               None fresh_worker_state)))"

definition one_apply_entry :: pgraft_worker_state where
  "one_apply_entry =
     snd (pgraft_enqueue_apply_entry small_constants 7 (Some ''{a}'') 3 fresh_worker_state)"

definition two_apply_entries :: pgraft_worker_state where
  "two_apply_entries =
     snd (pgraft_enqueue_apply_entry small_constants 8 (Some ''{b}'') 3 one_apply_entry)"

text \<open>
  The apply queue after both entries were queued and the first was taken out again: the
  tail is back at slot 0, which still holds the bytes of the entry with index 7.
\<close>

definition apply_slot_reused :: pgraft_worker_state where
  "apply_slot_reused = snd (pgraft_dequeue_apply_entry small_constants two_apply_entries)"

definition cluster_node1 :: pgraft_cluster where
  "cluster_node1 =
     snd (pgraft_core_init small_constants 1 ''10.0.0.1'' 7000
            (pgraft_core_init_shared_memory small_constants))"

definition io_ok :: file_io where
  "io_ok = \<lparr>fopen_ok = True, fwrite_ok = True, rename_ok = True,
             fprintf_short = (\<lambda>_. None), fclose_short = None\<rparr>"


definition fresh_world :: world where
  "fresh_world =
     \<lparr>g_kv_store = Some zero_kv_store, kv_disk = (\<lambda>_. None), worker = fresh_worker_state\<rparr>"

text \<open>The version \<open>pgraft_kv_get\<close> reports for a key, if it finds the key.\<close>

definition get_version :: "string \<Rightarrow> world \<Rightarrow> int option" where
  "get_version k w =
     (case fst (pgraft_kv_get (Some k) 1024 w) of
        Return (rc, Some (v, ver)) \<Rightarrow> Some ver
      | _ \<Rightarrow> None)"

definition kv_after_put :: world where
  "kv_after_put = snd (pgraft_kv_put io_ok 1 (Some ''alpha'') (Some ''1'') 0 fresh_world)"

definition kv_after_delete :: world where
  "kv_after_delete = snd (pgraft_kv_delete io_ok 2 (Some ''alpha'') 0 kv_after_put)"

definition kv_after_put_again :: world where
  "kv_after_put_again =
     snd (pgraft_kv_put io_ok 3 (Some ''alpha'') (Some ''2'') 0 kv_after_delete)"



text \<open>
  An environment for concrete runs: its parser knows two payloads, a put of \<open>alpha\<close>
  and a delete of \<open>alpha\<close>.
\<close>

definition json_quoted :: "string \<Rightarrow> string" where
  "json_quoted str = [dquote] @ str @ [dquote]"

definition put_alpha_payload :: string where
  "put_alpha_payload =
     ''{'' @ json_quoted ''type'' @ '':'' @ json_quoted ''kv_put'' @ '',''
     @ json_quoted ''key'' @ '':'' @ json_quoted ''alpha'' @ '',''
     @ json_quoted ''value'' @ '':'' @ json_quoted ''1'' @ ''}''"

definition delete_alpha_payload :: string where
  "delete_alpha_payload =
     ''{'' @ json_quoted ''type'' @ '':'' @ json_quoted ''kv_delete'' @ '',''
     @ json_quoted ''key'' @ '':'' @ json_quoted ''alpha'' @ ''}''"

definition example_env :: apply_env where
  "example_env =
     \<lparr>json_tokener_parse = (\<lambda>text.
        if text = put_alpha_payload then
          Some (Json_object [(''type'', Some (Json_string ''kv_put'')),
                             (''key'', Some (Json_string ''alpha'')),
                             (''value'', Some (Json_string ''1''))])
        else if text = delete_alpha_payload then
          Some (Json_object [(''type'', Some (Json_string ''kv_delete'')),
                             (''key'', Some (Json_string ''alpha''))])
        else None),
      json_object_to_json_string = (\<lambda>_. []),
      SPI_connect_ok = True,
      SPI_execute = (\<lambda>_. 0),
      file_env = io_ok\<rparr>"

definition applied_once :: world where
  "applied_once =
     snd (pgraft_apply_entry_to_postgres example_env 1 5 put_alpha_payload
            (length put_alpha_payload) fresh_world)"

definition applied_twice :: world where
  "applied_twice =
     snd (pgraft_apply_entry_to_postgres example_env 2 5 put_alpha_payload
            (length put_alpha_payload) applied_once)"

definition deleted_once :: world where
  "deleted_once =
     snd (pgraft_apply_entry_to_postgres example_env 3 6 delete_alpha_payload
            (length delete_alpha_payload) applied_once)"

section \<open>Properties of the log replication tracker\<close>

lemma commit_scan_not_found:
  "\<forall>j\<in>{i..<log_size s}. le_index (ls_entries s j) \<noteq> idx \<Longrightarrow> commit_scan idx i s = (- 1, s)"
proof (induction idx i s rule: commit_scan.induct)
  case (1 idx i s)
  show ?case
  proof (cases "i < log_size s")
    case True
    then have here: "le_index (ls_entries s i) \<noteq> idx" using "1.prems" by simp
    have "\<forall>j\<in>{i + 1..<log_size s}. le_index (ls_entries s j) \<noteq> idx"
      using "1.prems" by simp
    then have "commit_scan idx (i + 1) s = (- 1, s)"
      by (rule "1.IH" [OF True here])
    then show ?thesis using True here by (subst commit_scan.simps) simp
  next
    case False
    then show ?thesis by (subst commit_scan.simps) simp
  qed
qed

lemma apply_scan_uncommitted:
  "\<forall>j\<in>{i..<log_size s}. le_index (ls_entries s j) = idx \<longrightarrow> \<not> le_committed (ls_entries s j)
   \<Longrightarrow> apply_scan idx i s = (- 1, s)"
proof (induction idx i s rule: apply_scan.induct)
  case (1 idx i s)
  show ?case
  proof (cases "i < log_size s")
    case True
    note lt = this
    show ?thesis
    proof (cases "le_index (ls_entries s i) = idx")
      case True
      then have "\<not> le_committed (ls_entries s i)" using "1.prems" lt by simp
      then show ?thesis using True lt by (subst apply_scan.simps) simp
    next
      case False
      have "\<forall>j\<in>{i + 1..<log_size s}.
              le_index (ls_entries s j) = idx \<longrightarrow> \<not> le_committed (ls_entries s j)"
        using "1.prems" by simp
      then have "apply_scan idx (i + 1) s = (- 1, s)"
        by (rule "1.IH" [OF lt False])
      then show ?thesis using lt False by (subst apply_scan.simps) simp
    qed
  next
    case False
    then show ?thesis by (subst apply_scan.simps) simp
  qed
qed

lemma cleanup_scan_last_index: "last_index (cleanup_scan b i s) = last_index s"
proof (induction b i s rule: cleanup_scan.induct)
  case (1 b i s)
  show ?case
  proof (cases "i < log_size s")
    case True
    note lt = this
    show ?thesis
    proof (cases "le_index (ls_entries s i) < b")
      case True
      then show ?thesis using lt "1.IH"(1) by (subst cleanup_scan.simps) simp
    next
      case False
      then show ?thesis using lt "1.IH"(2) by (subst cleanup_scan.simps) simp
    qed
  next
    case False
    then show ?thesis by (subst cleanup_scan.simps) simp
  qed
qed

lemma append_cases:
  "pgraft_log_append_entry now trm dat sz s = (Elog_error, s) \<or>
   (\<exists>s'. pgraft_log_append_entry now trm dat sz s = (Return 0, s') \<and>
      le_index (ls_entries s' (log_size s' - 1)) = last_index s + 1 \<and>
      log_size s' = log_size s + 1 \<and>
      last_index s' = last_index s + 1)"
  by (simp add: pgraft_log_append_entry_def Let_def)

lemma upto_cons: "0 \<le> n \<Longrightarrow> (a + 1) # [a + 1 + 1 .. a + 1 + n] = [a + 1 .. a + (n + 1)]"
  by (subst (2) upto_rec1) (simp_all add: ac_simps)

lemma assigned_step:
  assumes "xs = c # ys" and "ys = [c + 1 .. c + int (length ys)]" and "c = a + 1"
  shows "xs = [a + 1 .. a + int (length xs)]"
proof -
  have len: "int (length xs) = int (length ys) + 1"
    unfolding assms(1) by simp
  have "xs = c # ys" by (rule assms(1))
  also have "c # ys = c # [c + 1 .. c + int (length ys)]"
    by (rule arg_cong [where f = "\<lambda>z. c # z", OF assms(2)])
  also have "\<dots> = [a + 1 .. a + (int (length ys) + 1)]"
    unfolding assms(3) by (rule upto_cons) simp
  finally show ?thesis unfolding len .
qed

lemma assigned_same:
  assumes "xs = ys" and "a = b" and "ys = [b + 1 .. b + int (length ys)]"
  shows "xs = [a + 1 .. a + int (length xs)]"
  unfolding assms(1,2) by (rule assms(3))

lemma assigned_from:
  "assigned ops s = [last_index s + 1 .. last_index s + int (length (assigned ops s))]"
proof (induction ops arbitrary: s)
  case Nil
  show ?case by simp
next
  case (Cons op ops)
  show ?case
  proof (cases op)
    case (Append now trm dat sz)
    from append_cases [of now trm dat sz s] show ?thesis
    proof
      assume "pgraft_log_append_entry now trm dat sz s = (Elog_error, s)"
      then have "assigned (op # ops) s = assigned ops s" using Append by simp
      then show ?thesis by (rule assigned_same [OF _ refl Cons.IH [of s]])
    next
      assume "\<exists>s'. pgraft_log_append_entry now trm dat sz s = (Return 0, s') \<and>
        le_index (ls_entries s' (log_size s' - 1)) = last_index s + 1 \<and>
        log_size s' = log_size s + 1 \<and>
        last_index s' = last_index s + 1"
      then obtain s' where ok: "pgraft_log_append_entry now trm dat sz s = (Return 0, s')"
        and ix: "le_index (ls_entries s' (log_size s' - 1)) = last_index s + 1"
        and li: "last_index s' = last_index s + 1" by blast
      have step: "assigned (op # ops) s = last_index s' # assigned ops s'"
        using Append ok ix li by simp
      show ?thesis
        by (rule assigned_step [OF step Cons.IH [of s'] li])
    qed
  next
    case (Cleanup_before b)
    have "assigned (op # ops) s = assigned ops (pgraft_log_cleanup_old_entries b s)"
      using Cleanup_before by simp
    moreover have "last_index s = last_index (pgraft_log_cleanup_old_entries b s)"
      by (simp add: pgraft_log_cleanup_old_entries_def cleanup_scan_last_index)
    ultimately show ?thesis
      by (rule assigned_same [OF _ _ Cons.IH [of "pgraft_log_cleanup_old_entries b s"]])
  qed
qed

text \<open>
  Claim C5. Starting from the state shared-memory initialisation creates, the indices
  assigned by the appends that return 0 are exactly 1, 2, 3, ..., whatever the arguments of
  the appends, whichever of them are rejected and wherever \<open>pgraft_log_cleanup_old_entries\<close>
  runs in between; from any state they continue at \<open>last_index + 1\<close> without a gap,
  strictly increasing. One append that returns 0 fills slot \<open>log_size\<close> with index
  \<open>last_index + 1\<close> and moves \<open>last_index\<close> there.
\<close>

theorem log_append_indices_gapless:
  "assigned ops pgraft_log_init_shared_memory
     = [1 .. int (length (assigned ops pgraft_log_init_shared_memory))]
   \<and> assigned ops s = [last_index s + 1 .. last_index s + int (length (assigned ops s))]
   \<and> sorted_wrt (<) (assigned ops s)
   \<and> (pgraft_log_append_entry now trm dat sz s = (Return 0, s') \<longrightarrow>
        le_index (ls_entries s' (log_size s)) = last_index s + 1
        \<and> last_index s' = last_index s + 1
        \<and> log_size s' = log_size s + 1)"
proof (intro conjI impI)
  have "last_index pgraft_log_init_shared_memory = 0"
    by (simp add: pgraft_log_init_shared_memory_def)
  then show "assigned ops pgraft_log_init_shared_memory
      = [1 .. int (length (assigned ops pgraft_log_init_shared_memory))]"
    using assigned_from [of ops pgraft_log_init_shared_memory] by simp
next
  show "assigned ops s = [last_index s + 1 .. last_index s + int (length (assigned ops s))]"
    by (rule assigned_from)
next
  have "sorted_wrt (<) [last_index s + 1 .. last_index s + int (length (assigned ops s))]"
    by (rule sorted_wrt_upto)
  then show "sorted_wrt (<) (assigned ops s)"
    by (subst assigned_from)
next
  assume ok: "pgraft_log_append_entry now trm dat sz s = (Return 0, s')"
  then have s': "s' = snd (pgraft_log_append_entry now trm dat sz s)" by simp
  have a: "\<not> sz > 1024"
    using ok by (auto simp: pgraft_log_append_entry_def split: if_splits)
  have b: "\<not> log_size s \<ge> 1000"
    using ok by (auto simp: pgraft_log_append_entry_def split: if_splits)
  show "le_index (ls_entries s' (log_size s)) = last_index s + 1"
    using a b by (simp add: s' pgraft_log_append_entry_def Let_def)
  show "last_index s' = last_index s + 1"
    using a b by (simp add: s' pgraft_log_append_entry_def Let_def)
  show "log_size s' = log_size s + 1"
    using a b by (simp add: s' pgraft_log_append_entry_def Let_def)
qed

theorem log_append_indices_gapless_witness:
  "assigned log_run_example pgraft_log_init_shared_memory = [1, 2, 3]
   \<and> pgraft_log_append_entry 10 1 (Some ''a'') 1 pgraft_log_init_shared_memory
       = (Return 0, snd (pgraft_log_append_entry 10 1 (Some ''a'') 1 pgraft_log_init_shared_memory))
   \<and> le_index (ls_entries
         (snd (pgraft_log_append_entry 10 1 (Some ''a'') 1 pgraft_log_init_shared_memory)) 0) = 1"
proof -
  let ?s0 = pgraft_log_init_shared_memory
  let ?s1 = "snd (pgraft_log_append_entry 10 1 (Some ''a'') 1 ?s0)"
  have ok: "pgraft_log_append_entry 10 1 (Some ''a'') 1 ?s0 = (Return 0, ?s1)"
    by (simp add: pgraft_log_append_entry_def pgraft_log_init_shared_memory_def Let_def)
  have len: "length (assigned log_run_example ?s0) = 3"
    by code_simp
  have z: "log_size ?s0 = 0" "last_index ?s0 = 0"
    by (simp_all add: pgraft_log_init_shared_memory_def)
  from log_append_indices_gapless [where ops = log_run_example and now = 10 and trm = 1
        and dat = "Some ''a''" and sz = 1 and s = ?s0 and s' = ?s1] ok len z
  show ?thesis by (simp add: upto_rec1)
qed

text \<open>
  Claim C6. \<open>pgraft_log_commit_entry\<close> returns -1 when no slot below \<open>log_size\<close>
  carries the index, and so does \<open>pgraft_log_apply_entry\<close>; \<open>pgraft_log_apply_entry\<close>
  also returns -1 when the slots that carry the index are not committed. In each case the
  state that comes back is the state that went in, so \<open>commit_index\<close>,
  \<open>last_applied\<close> and every other field keep their values.
\<close>

theorem log_commit_apply_failures_keep_state:
  "((\<forall>j\<in>{0..<log_size s}. le_index (ls_entries s j) \<noteq> idx) \<longrightarrow>
      pgraft_log_commit_entry idx s = (- 1, s) \<and> pgraft_log_apply_entry idx s = (- 1, s))
   \<and> ((\<forall>j\<in>{0..<log_size s}.
          le_index (ls_entries s j) = idx \<longrightarrow> \<not> le_committed (ls_entries s j)) \<longrightarrow>
      pgraft_log_apply_entry idx s = (- 1, s))"
proof (intro conjI impI)
  assume nf: "\<forall>j\<in>{0..<log_size s}. le_index (ls_entries s j) \<noteq> idx"
  show "pgraft_log_commit_entry idx s = (- 1, s)"
    unfolding pgraft_log_commit_entry_def using nf by (rule commit_scan_not_found)
  have "\<forall>j\<in>{0..<log_size s}.
          le_index (ls_entries s j) = idx \<longrightarrow> \<not> le_committed (ls_entries s j)"
    using nf by simp
  then show "pgraft_log_apply_entry idx s = (- 1, s)"
    unfolding pgraft_log_apply_entry_def by (rule apply_scan_uncommitted)
next
  assume "\<forall>j\<in>{0..<log_size s}.
          le_index (ls_entries s j) = idx \<longrightarrow> \<not> le_committed (ls_entries s j)"
  then show "pgraft_log_apply_entry idx s = (- 1, s)"
    unfolding pgraft_log_apply_entry_def by (rule apply_scan_uncommitted)
qed

theorem log_commit_apply_failures_keep_state_witness:
  "log_size log_one_entry = 1
   \<and> le_index (ls_entries log_one_entry 0) = 1
   \<and> \<not> le_committed (ls_entries log_one_entry 0)
   \<and> pgraft_log_commit_entry 2 log_one_entry = (- 1, log_one_entry)
   \<and> pgraft_log_apply_entry 2 log_one_entry = (- 1, log_one_entry)
   \<and> pgraft_log_apply_entry 1 log_one_entry = (- 1, log_one_entry)
   \<and> commit_index (snd (pgraft_log_commit_entry 2 log_one_entry)) = 0
   \<and> last_applied (snd (pgraft_log_apply_entry 1 log_one_entry)) = 0"
proof -
  have sz: "log_size log_one_entry = 1"
    by (simp add: log_one_entry_def pgraft_log_append_entry_def
        pgraft_log_init_shared_memory_def Let_def)
  have e0: "le_index (ls_entries log_one_entry 0) = 1"
    "\<not> le_committed (ls_entries log_one_entry 0)"
    by (simp_all add: log_one_entry_def pgraft_log_append_entry_def
        pgraft_log_init_shared_memory_def Let_def)
  have c: "commit_index log_one_entry = 0" "last_applied log_one_entry = 0"
    by (simp_all add: log_one_entry_def pgraft_log_append_entry_def
        pgraft_log_init_shared_memory_def Let_def)
  have only: "j = 0" if "j \<in> {0..<log_size log_one_entry}" for j
    using that by (simp add: sz)
  have nf: "\<forall>j\<in>{0..<log_size log_one_entry}. le_index (ls_entries log_one_entry j) \<noteq> 2"
  proof
    fix j assume "j \<in> {0..<log_size log_one_entry}"
    then have "j = 0" by (rule only)
    then show "le_index (ls_entries log_one_entry j) \<noteq> 2" using e0 by simp
  qed
  have uc: "\<forall>j\<in>{0..<log_size log_one_entry}.
         le_index (ls_entries log_one_entry j) = 1 \<longrightarrow> \<not> le_committed (ls_entries log_one_entry j)"
  proof
    fix j assume "j \<in> {0..<log_size log_one_entry}"
    then have "j = 0" by (rule only)
    then show "le_index (ls_entries log_one_entry j) = 1 \<longrightarrow> \<not> le_committed (ls_entries log_one_entry j)"
      using e0 by simp
  qed
  from log_commit_apply_failures_keep_state [of log_one_entry 2]
       log_commit_apply_failures_keep_state [of log_one_entry 1] nf uc c sz e0
  show ?thesis by simp
qed

section \<open>Properties of the command queue, the apply queue and the cluster descriptor\<close>

text \<open>
  Claim C7. With \<open>command_count\<close> at (or above) \<open>MAX_COMMANDS\<close>, each of the three
  submitting functions returns false at once, and the worker state that comes back is the
  state that went in: count, head, tail and every slot are the same, and so is the list
  of queued commands in dequeue order.
\<close>

theorem queue_command_full_rejected:
  "command_count st \<ge> MAX_COMMANDS h \<Longrightarrow>
     pgraft_queue_command h now ty nid address port cluster_id st = (False, st)
     \<and> pgraft_queue_log_command h now ty log_data lidx st = (False, st)
     \<and> pgraft_queue_kv_command h now ty key val client_id st = (False, st)
     \<and> queued_commands h
           (snd (pgraft_queue_command h now ty nid address port cluster_id st))
         = queued_commands h st"
  by (simp add: pgraft_queue_command_def pgraft_queue_log_command_def
      pgraft_queue_kv_command_def)

theorem queue_command_full_rejected_witness:
  "command_count full_command_queue = 2
   \<and> command_tail full_command_queue = 0
   \<and> map cmd_type (queued_commands small_constants full_command_queue)
       = [COMMAND_ADD_NODE, COMMAND_KV_PUT]
   \<and> pgraft_queue_command small_constants 102 COMMAND_REMOVE_NODE 2 None 0 None
         full_command_queue = (False, full_command_queue)
   \<and> pgraft_queue_log_command small_constants 102 COMMAND_LOG_APPEND (Some ''x'') 1
         full_command_queue = (False, full_command_queue)
   \<and> pgraft_queue_kv_command small_constants 102 COMMAND_KV_DELETE (Some ''alpha'') None None
         full_command_queue = (False, full_command_queue)"
proof -
  have cnt: "command_count full_command_queue = 2" "command_tail full_command_queue = 0"
    by (simp_all add: full_command_queue_def pgraft_queue_command_def
        pgraft_queue_kv_command_def small_constants_def fresh_worker_state_def Let_def
        signed_modulo_int_def)
  have q: "map cmd_type (queued_commands small_constants full_command_queue)
       = [COMMAND_ADD_NODE, COMMAND_KV_PUT]"
    by (simp add: queued_commands_def full_command_queue_def pgraft_queue_command_def
        pgraft_queue_kv_command_def small_constants_def fresh_worker_state_def Let_def
        signed_modulo_int_def numeral_2_eq_2)
  have full: "command_count full_command_queue \<ge> MAX_COMMANDS small_constants"
    by (simp add: cnt small_constants_def)
  from queue_command_full_rejected [OF full, of 102 COMMAND_REMOVE_NODE 2 None 0 None
         "Some ''x''" 1 "Some ''alpha''" None None]
       queue_command_full_rejected [OF full, of 102 COMMAND_LOG_APPEND 2 None 0 None
         "Some ''x''" 1 "Some ''alpha''" None None]
       queue_command_full_rejected [OF full, of 102 COMMAND_KV_DELETE 2 None 0 None
         "Some ''x''" 1 "Some ''alpha''" None None]
       cnt q
  show ?thesis by simp
qed

text \<open>
  Claim C10, as the code has it. \<open>pgraft_enqueue_apply_entry\<close> returns false and hands
  the worker state back as it was when \<open>apply_count\<close> has reached
  \<open>MAX_APPLY_ENTRIES\<close> or the length is larger than the data buffer of a slot. In
  every other case, a null payload included, it returns true; the slot at the old tail
  holds the index and the length and is marked not applied; the count is one larger; the
  tail has advanced by one around the ring; the head and every other slot are untouched.
  The payload is copied only behind the guard \<open>data && data_len > 0\<close>: for a
  non-null payload the first \<open>dlen\<close> bytes of the slot are the first \<open>dlen\<close> bytes
  of the payload and the rest of the buffer is as before; for a null payload, or length 0,
  the buffer of the slot is what it was before the call.
\<close>

theorem enqueue_apply_entry_contract:
  "((apply_count st \<ge> MAX_APPLY_ENTRIES h \<or> dlen > sizeof_apply_data h) \<longrightarrow>
      pgraft_enqueue_apply_entry h ridx dat dlen st = (False, st))
   \<and> (apply_count st < MAX_APPLY_ENTRIES h \<and> dlen \<le> sizeof_apply_data h \<longrightarrow>
      (let r = fst (pgraft_enqueue_apply_entry h ridx dat dlen st);
           st' = snd (pgraft_enqueue_apply_entry h ridx dat dlen st);
           e = apply_queue st' (apply_tail st)
       in r \<and> raft_index e = ridx \<and> data_len e = dlen
          \<and> \<not> applied e
          \<and> (dat = Some bytes \<and> 0 < dlen \<longrightarrow>
                ae_data e = take dlen bytes @ drop dlen (ae_data (apply_queue st (apply_tail st))))
          \<and> (dat = Some bytes \<and> dlen \<le> length bytes \<longrightarrow>
                take dlen (ae_data e) = take dlen bytes)
          \<and> (dat = None \<or> dlen = 0 \<longrightarrow>
                ae_data e = ae_data (apply_queue st (apply_tail st)))
          \<and> apply_count st' = apply_count st + 1
          \<and> apply_tail st' = (apply_tail st + 1) smod MAX_APPLY_ENTRIES h
          \<and> apply_head st' = apply_head st
          \<and> (\<forall>i. i \<noteq> apply_tail st \<longrightarrow> apply_queue st' i = apply_queue st i)))"
  by (auto simp: pgraft_enqueue_apply_entry_def Let_def)

theorem enqueue_apply_entry_contract_witness:
  "fst (pgraft_enqueue_apply_entry small_constants 7 (Some ''{a}'') 3 fresh_worker_state)
   \<and> raft_index (apply_queue one_apply_entry 0) = 7
   \<and> data_len (apply_queue one_apply_entry 0) = 3
   \<and> take 3 (ae_data (apply_queue one_apply_entry 0)) = ''{a}''
   \<and> apply_count one_apply_entry = 1
   \<and> apply_tail one_apply_entry = 1
   \<and> pgraft_enqueue_apply_entry small_constants 8 (Some ''{abcd}'') 6 one_apply_entry
       = (False, one_apply_entry)
   \<and> apply_count two_apply_entries = 2
   \<and> pgraft_enqueue_apply_entry small_constants 9 (Some ''{c}'') 3 two_apply_entries
       = (False, two_apply_entries)
   \<and> fst (pgraft_enqueue_apply_entry small_constants 9 None 3 apply_slot_reused)
   \<and> raft_index (apply_queue
         (snd (pgraft_enqueue_apply_entry small_constants 9 None 3 apply_slot_reused)) 0) = 9
   \<and> ae_data (apply_queue
         (snd (pgraft_enqueue_apply_entry small_constants 9 None 3 apply_slot_reused)) 0)
       = ae_data (apply_queue apply_slot_reused 0)
   \<and> apply_count (snd (pgraft_enqueue_apply_entry small_constants 9 None 3 apply_slot_reused))
       = 2"
proof -
  have pre: "apply_count fresh_worker_state < MAX_APPLY_ENTRIES small_constants"
    "3 \<le> sizeof_apply_data small_constants" "(3::nat) \<le> length ''{a}''"
    "apply_tail fresh_worker_state = 0" "apply_count fresh_worker_state = 0"
    "MAX_APPLY_ENTRIES small_constants = 2"
    by (simp_all add: fresh_worker_state_def small_constants_def)
  have big: "6 > sizeof_apply_data small_constants"
    by (simp add: small_constants_def)
  have full: "apply_count two_apply_entries = 2"
    by (simp add: two_apply_entries_def one_apply_entry_def pgraft_enqueue_apply_entry_def
        fresh_worker_state_def small_constants_def Let_def)
  have reused: "apply_count apply_slot_reused = 1" "apply_tail apply_slot_reused = 0"
    by (simp_all add: apply_slot_reused_def pgraft_dequeue_apply_entry_def
        two_apply_entries_def one_apply_entry_def pgraft_enqueue_apply_entry_def
        fresh_worker_state_def small_constants_def Let_def signed_modulo_int_def)
  have tk: "take 3 ''{a}'' = ''{a}''" by simp
  have sm: "(1::int) smod 2 = 1" by (simp add: signed_modulo_int_def)
  note first = enqueue_apply_entry_contract [where st = fresh_worker_state
         and h = small_constants and dlen = 3 and ridx = 7 and dat = "Some ''{a}''"
         and bytes = "''{a}''"]
  note large = enqueue_apply_entry_contract [where st = one_apply_entry
         and h = small_constants and dlen = 6 and ridx = 8 and dat = "Some ''{abcd}''"
         and bytes = "''{abcd}''"]
  note third = enqueue_apply_entry_contract [where st = two_apply_entries
         and h = small_constants and dlen = 3 and ridx = 9 and dat = "Some ''{c}''"
         and bytes = "''{c}''"]
  note null = enqueue_apply_entry_contract [where st = apply_slot_reused
         and h = small_constants and dlen = 3 and ridx = 9 and dat = None]
  have a: "fst (pgraft_enqueue_apply_entry small_constants 7 (Some ''{a}'') 3 fresh_worker_state)
   \<and> raft_index (apply_queue one_apply_entry 0) = 7
   \<and> data_len (apply_queue one_apply_entry 0) = 3
   \<and> take 3 (ae_data (apply_queue one_apply_entry 0)) = ''{a}''
   \<and> apply_count one_apply_entry = 1
   \<and> apply_tail one_apply_entry = 1"
    using first pre tk sm by (simp add: Let_def one_apply_entry_def)
  have b: "pgraft_enqueue_apply_entry small_constants 8 (Some ''{abcd}'') 6 one_apply_entry
       = (False, one_apply_entry)"
    using large big by simp
  have c: "pgraft_enqueue_apply_entry small_constants 9 (Some ''{c}'') 3 two_apply_entries
       = (False, two_apply_entries)"
    using third full pre(6) by simp
  have d: "fst (pgraft_enqueue_apply_entry small_constants 9 None 3 apply_slot_reused)
   \<and> raft_index (apply_queue
         (snd (pgraft_enqueue_apply_entry small_constants 9 None 3 apply_slot_reused)) 0) = 9
   \<and> ae_data (apply_queue
         (snd (pgraft_enqueue_apply_entry small_constants 9 None 3 apply_slot_reused)) 0)
       = ae_data (apply_queue apply_slot_reused 0)
   \<and> apply_count (snd (pgraft_enqueue_apply_entry small_constants 9 None 3 apply_slot_reused))
       = 2"
    using null reused pre(2,6) by (simp add: Let_def)
  show ?thesis using a b c d full by simp
qed

text \<open>
  Claim C10 as stated fails for a null payload: the call with index 9, a null pointer and
  length 3 returns true and leaves the tail slot with index 9 and length 3 over the three
  bytes of the entry with index 7 that the slot held before.
\<close>

theorem enqueue_apply_null_payload_counterexample:
  "raft_index (apply_queue apply_slot_reused 0) = 7
   \<and> take 3 (ae_data (apply_queue apply_slot_reused 0)) = ''{a}''
   \<and> apply_tail apply_slot_reused = 0
   \<and> fst (pgraft_enqueue_apply_entry small_constants 9 None 3 apply_slot_reused)
   \<and> raft_index (apply_queue
         (snd (pgraft_enqueue_apply_entry small_constants 9 None 3 apply_slot_reused)) 0) = 9
   \<and> data_len (apply_queue
         (snd (pgraft_enqueue_apply_entry small_constants 9 None 3 apply_slot_reused)) 0) = 3
   \<and> take 3 (ae_data (apply_queue
         (snd (pgraft_enqueue_apply_entry small_constants 9 None 3 apply_slot_reused)) 0))
       = ''{a}''"
  by (simp add: apply_slot_reused_def pgraft_dequeue_apply_entry_def
      two_apply_entries_def one_apply_entry_def pgraft_enqueue_apply_entry_def
      fresh_worker_state_def small_constants_def Let_def signed_modulo_int_def)

text \<open>
  Claim C9. \<open>pgraft_core_init\<close> on a descriptor whose \<open>initialized\<close> flag is set
  returns 0 and hands the descriptor back as it was, whatever node id, address and port it
  is called with: no field changes.
\<close>

theorem core_init_initialized_unchanged:
  "initialized cluster \<Longrightarrow> pgraft_core_init h nid address port cluster = (0, cluster)"
  by (simp add: pgraft_core_init_def)

theorem core_init_initialized_unchanged_witness:
  "initialized cluster_node1
   \<and> node_id cluster_node1 = 1
   \<and> state cluster_node1 = ''follower''
   \<and> pgraft_core_init small_constants 2 ''10.0.0.2'' 7001 cluster_node1 = (0, cluster_node1)
   \<and> node_id (snd (pgraft_core_init small_constants 2 ''10.0.0.2'' 7001 cluster_node1)) = 1"
proof -
  have i: "initialized cluster_node1" "node_id cluster_node1 = 1"
    "state cluster_node1 = ''follower''"
    by (simp_all add: cluster_node1_def pgraft_core_init_def
        pgraft_core_init_shared_memory_def small_constants_def strncpy_term_def)
  from core_init_initialized_unchanged [OF i(1), of small_constants 2 "''10.0.0.2''" 7001] i
  show ?thesis by simp
qed

section \<open>Properties of the key/value store\<close>

lemma save_keeps_store [simp]:
  "g_kv_store (snd (pgraft_kv_save_to_disk io p w)) = g_kv_store w"
  by (simp add: pgraft_kv_save_to_disk_def Let_def split: option.splits)

lemma find_scan_result:
  "0 \<le> i \<Longrightarrow> find_entry_scan s k i = - 1 \<or>
     (i \<le> find_entry_scan s k i \<and> find_entry_scan s k i < num_entries s
      \<and> \<not> deleted (entries s (find_entry_scan s k i))
      \<and> kv_key (entries s (find_entry_scan s k i)) = k)"
proof (induction s k i rule: find_entry_scan.induct)
  case (1 s k i)
  show ?case
  proof (cases "i < num_entries s")
    case True
    note lt = this
    show ?thesis
    proof (cases "\<not> deleted (entries s i) \<and> kv_key (entries s i) = k")
      case True
      then have "find_entry_scan s k i = i" using lt by (subst find_entry_scan.simps) simp
      then show ?thesis using True lt by simp
    next
      case False
      then have eq: "find_entry_scan s k i = find_entry_scan s k (i + 1)"
        using lt by (subst find_entry_scan.simps) auto
      have "0 \<le> i + 1" using "1.prems" by simp
      from "1.IH" [OF lt False this] show ?thesis unfolding eq by auto
    qed
  next
    case False
    then have "find_entry_scan s k i = - 1" by (subst find_entry_scan.simps) simp
    then show ?thesis by simp
  qed
qed

lemma find_scan_cong:
  assumes "num_entries s' = num_entries s"
    and "\<And>j. i \<le> j \<Longrightarrow> j < num_entries s \<Longrightarrow>
           deleted (entries s' j) = deleted (entries s j) \<and> kv_key (entries s' j) = kv_key (entries s j)"
  shows "find_entry_scan s' k i = find_entry_scan s k i"
  using assms
proof (induction s k i rule: find_entry_scan.induct)
  case (1 s k i)
  show ?case
  proof (cases "i < num_entries s")
    case True
    note lt = this
    have same: "deleted (entries s' i) = deleted (entries s i)" "kv_key (entries s' i) = kv_key (entries s i)"
      using "1.prems"(2) [of i] lt by simp_all
    show ?thesis
    proof (cases "\<not> deleted (entries s i) \<and> kv_key (entries s i) = k")
      case True
      then have "find_entry_scan s k i = i" using lt by (subst find_entry_scan.simps) simp
      moreover have "find_entry_scan s' k i = i"
        using True lt same "1.prems"(1) by (subst find_entry_scan.simps) simp
      ultimately show ?thesis by simp
    next
      case False
      then have a: "find_entry_scan s k i = find_entry_scan s k (i + 1)"
        using lt by (subst find_entry_scan.simps) auto
      have b: "find_entry_scan s' k i = find_entry_scan s' k (i + 1)"
        using False lt same "1.prems"(1) by (subst find_entry_scan.simps) auto
      have "find_entry_scan s' k (i + 1) = find_entry_scan s k (i + 1)"
        by (rule "1.IH" [OF lt False "1.prems"(1)]) (use "1.prems"(2) in auto)
      then show ?thesis using a b by simp
    qed
  next
    case False
    then have "find_entry_scan s k i = - 1" by (subst find_entry_scan.simps) simp
    moreover have "find_entry_scan s' k i = - 1"
      using False "1.prems"(1) by (subst find_entry_scan.simps) simp
    ultimately show ?thesis by simp
  qed
qed

lemma find_scan_appended:
  assumes "num_entries s' = num_entries s + 1"
    and "\<And>j. i \<le> j \<Longrightarrow> j < num_entries s \<Longrightarrow> entries s' j = entries s j"
    and "\<not> deleted (entries s' (num_entries s))"
    and "kv_key (entries s' (num_entries s)) = k"
    and "find_entry_scan s k i = - 1"
    and "0 \<le> i" and "i \<le> num_entries s"
  shows "find_entry_scan s' k i = num_entries s"
  using assms
proof (induction s k i rule: find_entry_scan.induct)
  case (1 s k i)
  show ?case
  proof (cases "i < num_entries s")
    case True
    note lt = this
    have nomatch: "\<not> (\<not> deleted (entries s i) \<and> kv_key (entries s i) = k)"
    proof
      assume "\<not> deleted (entries s i) \<and> kv_key (entries s i) = k"
      then have "find_entry_scan s k i = i" using lt by (subst find_entry_scan.simps) simp
      then show False using "1.prems"(5,6) by simp
    qed
    then have a: "find_entry_scan s k (i + 1) = - 1"
      using "1.prems"(5) lt by (subst (asm) find_entry_scan.simps) auto
    have same: "entries s' i = entries s i" using "1.prems"(2) [of i] lt by simp
    have b: "find_entry_scan s' k i = find_entry_scan s' k (i + 1)"
      using nomatch lt same "1.prems"(1) by (subst find_entry_scan.simps) auto
    have "find_entry_scan s' k (i + 1) = num_entries s"
      by (rule "1.IH" [OF lt nomatch "1.prems"(1) _ "1.prems"(3,4) a])
         (use "1.prems"(2,6) lt in auto)
    then show ?thesis using b by simp
  next
    case False
    then have "i = num_entries s" using "1.prems"(7) by simp
    then show ?thesis using "1.prems"(1,3,4)
      by (subst find_entry_scan.simps) simp
  qed
qed


lemma put_update_branch:
  assumes g: "g_kv_store w = Some store"
    and put: "pgraft_kv_put io now (Some k) (Some v) lidx w = (Return 0, w')"
    and found: "0 \<le> find_entry_scan store k 0"
  shows "g_kv_store w' = Some (store
           \<lparr>entries := (entries store)(find_entry_scan store k 0 :=
               (entries store (find_entry_scan store k 0))
                 \<lparr>kv_value := strncpy_term 1024 v,
                  version := version (entries store (find_entry_scan store k 0)) + 1,
                  updated_at := now, log_index := lidx, deleted := False\<rparr>),
            puts := puts store + 1,
            total_operations := total_operations store + 1,
            last_applied_index := lidx\<rparr>)"
proof -
  have len: "\<not> length k \<ge> 256" "\<not> length v \<ge> 1024"
    using put g by (auto simp: pgraft_kv_put_def split: if_splits)
  show ?thesis
    using put g found len
    by (auto simp: pgraft_kv_put_def pgraft_kv_find_entry_index_def Let_def)
qed

lemma put_create_branch:
  assumes g: "g_kv_store w = Some store"
    and put: "pgraft_kv_put io now (Some k) (Some v) lidx w = (Return 0, w')"
    and missing: "find_entry_scan store k 0 < 0"
  shows "length k < 256 \<and> g_kv_store w' = Some (store
           \<lparr>entries := (entries store)(num_entries store :=
               (entries store (num_entries store))
                 \<lparr>kv_key := strncpy_term 256 k,
                  kv_value := strncpy_term 1024 v,
                  version := 1, created_at := now,
                  updated_at := now, log_index := lidx, deleted := False\<rparr>),
            num_entries := num_entries store + 1,
            puts := puts store + 1,
            total_operations := total_operations store + 1,
            last_applied_index := lidx\<rparr>)"
proof -
  have len: "\<not> length k \<ge> 256" "\<not> length v \<ge> 1024"
    using put g by (auto simp: pgraft_kv_put_def split: if_splits)
  have room: "\<not> num_entries store \<ge> 1000"
    using put g missing len
    by (auto simp: pgraft_kv_put_def pgraft_kv_find_entry_index_def Let_def split: if_splits)
  show ?thesis
    using put g missing len room
    by (auto simp: pgraft_kv_put_def pgraft_kv_find_entry_index_def Let_def)
qed

lemma delete_branch:
  assumes g: "g_kv_store w = Some store"
    and del: "pgraft_kv_delete io now (Some k) lidx w = (Return 0, w')"
  shows "0 \<le> find_entry_scan store k 0 \<and> g_kv_store w' = Some (store
           \<lparr>entries := (entries store)(find_entry_scan store k 0 :=
               (entries store (find_entry_scan store k 0))
                 \<lparr>deleted := True, updated_at := now, log_index := lidx,
                  version := version (entries store (find_entry_scan store k 0)) + 1\<rparr>),
            deletes := deletes store + 1,
            total_operations := total_operations store + 1,
            last_applied_index := lidx\<rparr>)"
  using del g
  by (auto simp: pgraft_kv_delete_def pgraft_kv_find_entry_index_def Let_def split: if_splits)

text \<open>
  Claim C3, as the code has it. A put that returns 0 for a key with a live (not deleted)
  entry leaves the key in its slot and raises the version of that entry by one. A delete
  that returns 0 marks the live entry of the key deleted and raises its version by one. A
  put that returns 0 for a key without a live entry, whether the key was never stored or
  was deleted before, fills the slot at \<open>num_entries\<close> with version 1 and changes no
  other slot, so a tombstone of the key keeps its version and the key is found in the new
  slot from then on.
\<close>

theorem kv_version_steps:
  assumes g: "g_kv_store w = Some store" and n0: "0 \<le> num_entries store"
  shows
    "(pgraft_kv_put io now (Some k) (Some v) lidx w = (Return 0, w') \<longrightarrow>
        (0 \<le> find_entry_scan store k 0 \<longrightarrow>
           find_entry_scan (the (g_kv_store w')) k 0 = find_entry_scan store k 0
           \<and> version (entries (the (g_kv_store w')) (find_entry_scan store k 0))
               = version (entries store (find_entry_scan store k 0)) + 1)
        \<and> (find_entry_scan store k 0 < 0 \<longrightarrow>
           find_entry_scan (the (g_kv_store w')) k 0 = num_entries store
           \<and> version (entries (the (g_kv_store w')) (num_entries store)) = 1
           \<and> (\<forall>j. j \<noteq> num_entries store \<longrightarrow>
                  entries (the (g_kv_store w')) j = entries store j)))
     \<and> (pgraft_kv_delete io now (Some k) lidx w = (Return 0, w'') \<longrightarrow>
        0 \<le> find_entry_scan store k 0
        \<and> deleted (entries (the (g_kv_store w'')) (find_entry_scan store k 0))
        \<and> version (entries (the (g_kv_store w'')) (find_entry_scan store k 0))
            = version (entries store (find_entry_scan store k 0)) + 1)"
proof (intro conjI impI)
  assume put: "pgraft_kv_put io now (Some k) (Some v) lidx w = (Return 0, w')"
    and found: "0 \<le> find_entry_scan store k 0"
  let ?i = "find_entry_scan store k 0"
  note st = put_update_branch [OF g put found]
  from find_scan_result [of 0 store k] found
  have live: "?i < num_entries store" "\<not> deleted (entries store ?i)" "kv_key (entries store ?i) = k"
    by auto
  show "find_entry_scan (the (g_kv_store w')) k 0 = ?i"
    unfolding st option.sel
    by (rule find_scan_cong) (use live in auto)
  show "version (entries (the (g_kv_store w')) ?i) = version (entries store ?i) + 1"
    unfolding st by simp
next
  assume put: "pgraft_kv_put io now (Some k) (Some v) lidx w = (Return 0, w')"
    and missing: "find_entry_scan store k 0 < 0"
  note st = put_create_branch [OF g put missing]
  then have len: "length k < 256" by simp
  from find_scan_result [of 0 store k] missing
  have m1: "find_entry_scan store k 0 = - 1" by auto
  show "find_entry_scan (the (g_kv_store w')) k 0 = num_entries store"
    unfolding conjunct2 [OF st] option.sel
    by (rule find_scan_appended) (use len m1 n0 in \<open>auto simp: strncpy_term_def\<close>)
  show "version (entries (the (g_kv_store w')) (num_entries store)) = 1"
    unfolding conjunct2 [OF st] by simp
  show "\<forall>j. j \<noteq> num_entries store \<longrightarrow> entries (the (g_kv_store w')) j = entries store j"
    unfolding conjunct2 [OF st] by simp
next
  assume del: "pgraft_kv_delete io now (Some k) lidx w = (Return 0, w'')"
  note st = delete_branch [OF g del]
  show "0 \<le> find_entry_scan store k 0" using st by simp
  show "deleted (entries (the (g_kv_store w'')) (find_entry_scan store k 0))"
    unfolding conjunct2 [OF st] by simp
  show "version (entries (the (g_kv_store w'')) (find_entry_scan store k 0))
            = version (entries store (find_entry_scan store k 0)) + 1"
    unfolding conjunct2 [OF st] by simp
qed

theorem kv_version_steps_witness:
  "find_entry_scan (the (g_kv_store kv_after_put)) ''alpha'' 0 = 0
   \<and> version (entries (the (g_kv_store kv_after_put)) 0) = 1
   \<and> version (entries (the (g_kv_store
         (snd (pgraft_kv_put io_ok 5 (Some ''alpha'') (Some ''9'') 0 kv_after_put)))) 0) = 2
   \<and> deleted (entries (the (g_kv_store kv_after_delete)) 0)
   \<and> version (entries (the (g_kv_store kv_after_delete)) 0) = 2
   \<and> find_entry_scan (the (g_kv_store kv_after_put_again)) ''alpha'' 0 = 1
   \<and> version (entries (the (g_kv_store kv_after_put_again)) 1) = 1"
proof -
  let ?p = "pgraft_kv_put io_ok 5 (Some ''alpha'') (Some ''9'') 0 kv_after_put"
  let ?d = "pgraft_kv_delete io_ok 2 (Some ''alpha'') 0 kv_after_put"
  let ?q = "pgraft_kv_put io_ok 3 (Some ''alpha'') (Some ''2'') 0 kv_after_delete"
  have "\<not> Option.is_none (g_kv_store kv_after_put)" by code_simp
  then have g1: "g_kv_store kv_after_put = Some (the (g_kv_store kv_after_put))"
    by (simp add: Option.is_none_def)
  have n1: "0 \<le> num_entries (the (g_kv_store kv_after_put))"
    and f1: "find_entry_scan (the (g_kv_store kv_after_put)) ''alpha'' 0 = 0"
    and v1: "version (entries (the (g_kv_store kv_after_put)) 0) = 1"
    by code_simp+
  have "fst ?p = Return 0" and "fst ?d = Return 0" by code_simp+
  then have p: "?p = (Return 0, snd ?p)" and d: "?d = (Return 0, kv_after_delete)"
    unfolding kv_after_delete_def by (simp_all add: prod_eq_iff)
  have "\<not> Option.is_none (g_kv_store kv_after_delete)" by code_simp
  then have g2: "g_kv_store kv_after_delete = Some (the (g_kv_store kv_after_delete))"
    by (simp add: Option.is_none_def)
  have n2: "num_entries (the (g_kv_store kv_after_delete)) = 1"
    and f2: "find_entry_scan (the (g_kv_store kv_after_delete)) ''alpha'' 0 = - 1"
    by code_simp+
  have "fst ?q = Return 0" by code_simp
  then have q: "?q = (Return 0, kv_after_put_again)"
    unfolding kv_after_put_again_def by (simp add: prod_eq_iff)
  from kv_version_steps [OF g1 n1, where io = io_ok and now = 5 and k = "''alpha''"
         and v = "''9''" and lidx = 0 and w' = "snd ?p"]
       kv_version_steps [OF g1 n1, where io = io_ok and now = 2 and k = "''alpha''"
         and lidx = 0 and w'' = kv_after_delete]
       kv_version_steps [OF g2, where io = io_ok and now = 3 and k = "''alpha''"
         and v = "''2''" and lidx = 0 and w' = kv_after_put_again]
       p d q f1 v1 n2 f2
  show ?thesis by simp
qed

text \<open>
  Claim C3 as stated fails where a put follows a delete of the same key: after the put
  and the delete of \<open>alpha\<close> its entry carries version 2, and after the next put, which
  returns 0, \<open>pgraft_kv_get\<close> reports version 1 for \<open>alpha\<close>.
\<close>

theorem kv_version_after_delete_counterexample:
  "get_version ''alpha'' kv_after_put = Some 1
   \<and> kv_key (entries (the (g_kv_store kv_after_delete)) 0) = ''alpha''
   \<and> version (entries (the (g_kv_store kv_after_delete)) 0) = 2
   \<and> fst (pgraft_kv_put io_ok 3 (Some ''alpha'') (Some ''2'') 0 kv_after_delete) = Return 0
   \<and> get_version ''alpha'' kv_after_put_again = Some 1"
  by code_simp



section \<open>Properties of the two persisted files\<close>








section \<open>Properties of the apply pipeline\<close>

lemma put_update_result:
  assumes g: "g_kv_store w = Some store"
    and found: "0 \<le> find_entry_scan store k 0"
    and len: "length k < 256" "length v < 1024"
  shows "pgraft_kv_put io now (Some k) (Some v) lidx w =
     (Return 0,
      snd (pgraft_kv_save_to_disk io (Some PGRAFT_KV_PERSIST_FILE)
        (w\<lparr>g_kv_store := Some (store
           \<lparr>entries := (entries store)(find_entry_scan store k 0 :=
               (entries store (find_entry_scan store k 0))
                 \<lparr>kv_value := strncpy_term 1024 v,
                  version := version (entries store (find_entry_scan store k 0)) + 1,
                  updated_at := now, log_index := lidx, deleted := False\<rparr>),
            puts := puts store + 1,
            total_operations := total_operations store + 1,
            last_applied_index := lidx\<rparr>)\<rparr>)))"
  using assms
  by (simp add: pgraft_kv_put_def pgraft_kv_find_entry_index_def Let_def)

lemma save_keeps_worker [simp]:
  "worker (snd (pgraft_kv_save_to_disk io p w)) = worker w"
  by (simp add: pgraft_kv_save_to_disk_def Let_def split: option.splits)

text \<open>
  Claim C1, as the code has it. The pipeline does not compare the index of a delivered
  entry with the recorded applied index, so an entry that is delivered again is executed
  again. For a put whose key has a live entry (as it has after the first delivery), the
  call returns 0, the version of the entry and the counters \<open>puts\<close> and
  \<open>total_operations\<close> go up by one once more, and the delivered index is recorded as
  the applied index, whatever index was recorded before. For a delete whose key has no
  live entry (as after the first delivery), the call ends in \<open>elog (ERROR, ...)\<close> and
  changes nothing.
\<close>

theorem apply_redelivery_runs_again:
  assumes brace: "first_char_is (CHR ''{'') dat" and g: "g_kv_store w = Some store"
  shows
    "(pgraft_json_parse_kv_operation env dat = Return (0, PGRAFT_KV_PUT, Some k, Some v)
        \<and> 0 \<le> find_entry_scan store k 0 \<and> length k < 256 \<and> length v < 1024 \<longrightarrow>
      fst (pgraft_apply_entry_to_postgres env now n dat len w) = Return 0
      \<and> version (entries (the (g_kv_store (snd (pgraft_apply_entry_to_postgres env now n dat len w))))
                  (find_entry_scan store k 0))
          = version (entries store (find_entry_scan store k 0)) + 1
      \<and> kv_value (entries (the (g_kv_store (snd (pgraft_apply_entry_to_postgres env now n dat len w))))
                  (find_entry_scan store k 0)) = v
      \<and> puts (the (g_kv_store (snd (pgraft_apply_entry_to_postgres env now n dat len w))))
          = puts store + 1
      \<and> total_operations (the (g_kv_store (snd (pgraft_apply_entry_to_postgres env now n dat len w))))
          = total_operations store + 1
      \<and> pgraft_get_applied_index (snd (pgraft_apply_entry_to_postgres env now n dat len w)) = n)
     \<and> (pgraft_json_parse_kv_operation env dat = Return (0, PGRAFT_KV_DELETE, Some k, None)
        \<and> find_entry_scan store k 0 < 0 \<longrightarrow>
      pgraft_apply_entry_to_postgres env now n dat len w = (Elog_error, w))"
proof (intro conjI impI)
  assume a: "pgraft_json_parse_kv_operation env dat = Return (0, PGRAFT_KV_PUT, Some k, Some v)
        \<and> 0 \<le> find_entry_scan store k 0 \<and> length k < 256 \<and> length v < 1024"
  let ?store' = "store
           \<lparr>entries := (entries store)(find_entry_scan store k 0 :=
               (entries store (find_entry_scan store k 0))
                 \<lparr>kv_value := strncpy_term 1024 v,
                  version := version (entries store (find_entry_scan store k 0)) + 1,
                  updated_at := now, log_index := 0, deleted := False\<rparr>),
            puts := puts store + 1,
            total_operations := total_operations store + 1,
            last_applied_index := 0\<rparr>"
  let ?w' = "snd (pgraft_kv_save_to_disk (file_env env) (Some PGRAFT_KV_PERSIST_FILE)
        (w\<lparr>g_kv_store := Some ?store'\<rparr>))"
  have put: "pgraft_kv_put (file_env env) now (Some k) (Some v) 0 w = (Return 0, ?w')"
    using a by (intro put_update_result [OF g]) simp_all
  have run: "pgraft_apply_entry_to_postgres env now n dat len w
      = (Return 0, pgraft_record_applied_index n ?w')"
    using a brace put
    by (simp add: pgraft_apply_entry_to_postgres_def pgraft_apply_kv_operation_def
        pgraft_kv_put_local_def)
  have st: "g_kv_store (snd (pgraft_apply_entry_to_postgres env now n dat len w)) = Some ?store'"
    by (simp add: run pgraft_record_applied_index_def)
  show "fst (pgraft_apply_entry_to_postgres env now n dat len w) = Return 0"
    by (simp add: run)
  show "version (entries (the (g_kv_store (snd (pgraft_apply_entry_to_postgres env now n dat len w))))
                  (find_entry_scan store k 0))
          = version (entries store (find_entry_scan store k 0)) + 1"
    unfolding st by simp
  show "kv_value (entries (the (g_kv_store (snd (pgraft_apply_entry_to_postgres env now n dat len w))))
                  (find_entry_scan store k 0)) = v"
    unfolding st using a by (simp add: strncpy_term_def)
  show "puts (the (g_kv_store (snd (pgraft_apply_entry_to_postgres env now n dat len w))))
          = puts store + 1"
    unfolding st by simp
  show "total_operations (the (g_kv_store (snd (pgraft_apply_entry_to_postgres env now n dat len w))))
          = total_operations store + 1"
    unfolding st by simp
  show "pgraft_get_applied_index (snd (pgraft_apply_entry_to_postgres env now n dat len w)) = n"
    by (simp add: run pgraft_record_applied_index_def pgraft_get_applied_index_def)
next
  assume a: "pgraft_json_parse_kv_operation env dat = Return (0, PGRAFT_KV_DELETE, Some k, None)
        \<and> find_entry_scan store k 0 < 0"
  then have "pgraft_kv_delete (file_env env) now (Some k) 0 w = (Return (- 1), w)"
    using g by (simp add: pgraft_kv_delete_def pgraft_kv_find_entry_index_def)
  then show "pgraft_apply_entry_to_postgres env now n dat len w = (Elog_error, w)"
    using a brace
    by (simp add: pgraft_apply_entry_to_postgres_def pgraft_apply_kv_operation_def
        pgraft_kv_delete_local_def PGRAFT_KV_PUT_def PGRAFT_KV_DELETE_def)
qed

theorem apply_redelivery_runs_again_witness:
  "pgraft_get_applied_index applied_once = 5
   \<and> version (entries (the (g_kv_store applied_once)) 0) = 1
   \<and> fst (pgraft_apply_entry_to_postgres example_env 2 5 put_alpha_payload
            (length put_alpha_payload) applied_once) = Return 0
   \<and> version (entries (the (g_kv_store applied_twice)) 0) = 2
   \<and> puts (the (g_kv_store applied_twice)) = 2
   \<and> pgraft_get_applied_index deleted_once = 6
   \<and> pgraft_apply_entry_to_postgres example_env 4 6 delete_alpha_payload
         (length delete_alpha_payload) deleted_once = (Elog_error, deleted_once)"
proof -
  have b: "first_char_is (CHR ''{'') put_alpha_payload"
    "first_char_is (CHR ''{'') delete_alpha_payload"
    by code_simp+
  have "\<not> Option.is_none (g_kv_store applied_once)" by code_simp
  then have g1: "g_kv_store applied_once = Some (the (g_kv_store applied_once))"
    by (simp add: Option.is_none_def)
  have "\<not> Option.is_none (g_kv_store deleted_once)" by code_simp
  then have g2: "g_kv_store deleted_once = Some (the (g_kv_store deleted_once))"
    by (simp add: Option.is_none_def)
  have p1: "pgraft_json_parse_kv_operation example_env put_alpha_payload
      = Return (0, PGRAFT_KV_PUT, Some ''alpha'', Some ''1'')"
    and p2: "pgraft_json_parse_kv_operation example_env delete_alpha_payload
      = Return (0, PGRAFT_KV_DELETE, Some ''alpha'', None)"
    by code_simp+
  have f1: "find_entry_scan (the (g_kv_store applied_once)) ''alpha'' 0 = 0"
    and f2: "find_entry_scan (the (g_kv_store deleted_once)) ''alpha'' 0 = - 1"
    and v: "version (entries (the (g_kv_store applied_once)) 0) = 1"
      "puts (the (g_kv_store applied_once)) = 1"
    and i: "pgraft_get_applied_index applied_once = 5"
      "pgraft_get_applied_index deleted_once = 6"
    by code_simp+
  from apply_redelivery_runs_again [OF b(1) g1, where env = example_env and k = "''alpha''"
         and v = "''1''" and now = 2 and n = 5 and len = "length put_alpha_payload"]
       apply_redelivery_runs_again [OF b(2) g2, where env = example_env and k = "''alpha''"
         and now = 4 and n = 6 and len = "length delete_alpha_payload"]
       p1 p2 f1 f2 v i
  show ?thesis by (simp add: applied_twice_def)
qed

text \<open>
  Claim C1 as stated fails: index 5 is recorded as applied and \<open>alpha\<close> has version 1;
  the same entry delivered again with index 5 returns 0, and \<open>alpha\<close> then has version
  2 and the store counts a second put.
\<close>

theorem apply_redelivery_counterexample:
  "pgraft_get_applied_index applied_once = 5
   \<and> get_version ''alpha'' applied_once = Some 1
   \<and> puts (the (g_kv_store applied_once)) = 1
   \<and> fst (pgraft_apply_entry_to_postgres example_env 2 5 put_alpha_payload
            (length put_alpha_payload) applied_once) = Return 0
   \<and> get_version ''alpha'' applied_twice = Some 2
   \<and> puts (the (g_kv_store applied_twice)) = 2"
  by code_simp

text \<open>
  Claim C2 at a concrete input: a put of \<open>alpha\<close> with value 1, delivered with
  consensus index 5 to a store that has no entries. The call returns 0 and
  \<open>pgraft_kv_get\<close> finds the value with version 1; the worker state records index 5,
  but \<open>last_applied_index\<close> of the store, and \<open>log_index\<close> of the entry, are 0,
  the constant \<open>pgraft_kv_put_local\<close> passes as the log index.
\<close>

theorem apply_kv_put_store_index_evaluation:
  "fst (pgraft_apply_entry_to_postgres example_env 1 5 put_alpha_payload
          (length put_alpha_payload) fresh_world) = Return 0
   \<and> fst (pgraft_kv_get (Some ''alpha'') 1024 applied_once) = Return (0, Some (''1'', 1))
   \<and> pgraft_get_applied_index applied_once = 5
   \<and> last_applied_index (the (g_kv_store applied_once)) = 0
   \<and> log_index (entries (the (g_kv_store applied_once)) 0) = 0"
  by code_simp

end
